theory Spec2Isabelle
  imports Complex_Main "HOL-Library.Word"
begin

section \<open>The IMU orientation estimator of \<^verbatim>\<open>src/IMU.cpp\<close>\<close>

text \<open>
  The class \<^verbatim>\<open>IMU\<close> holds an extended Kalman filter over a quaternion state and is
  driven by three callbacks: \<^verbatim>\<open>gyroReadingChanged\<close>, \<^verbatim>\<open>accReadingChanged\<close> and
  \<^verbatim>\<open>magReadingChanged\<close>. The object is a record, every member function a function from
  the record to the updated record.

  Numbers: \<^verbatim>\<open>qreal\<close> is modelled by the mathematical reals, so rounding is not part of
  the model and a literal such as \<^verbatim>\<open>1e-4f\<close> stands for its decimal value. Timestamps are
  \<^verbatim>\<open>quint64\<close>: 64-bit words, whose subtraction wraps around. A \<^verbatim>\<open>cv::Mat\<close> of fixed
  size is a tuple of its entries, a matrix a tuple of its rows.
\<close>

subsection \<open>Numbers, vectors and matrices\<close>

type_synonym qreal = real
type_synonym quint64 = "64 word"
type_synonym vec3 = "qreal \<times> qreal \<times> qreal"
type_synonym vec4 = "qreal \<times> qreal \<times> qreal \<times> qreal"
type_synonym vec6 = "qreal \<times> qreal \<times> qreal \<times> qreal \<times> qreal \<times> qreal"
type_synonym mat4 = "vec4 \<times> vec4 \<times> vec4 \<times> vec4"
type_synonym mat64 = "vec4 \<times> vec4 \<times> vec4 \<times> vec4 \<times> vec4 \<times> vec4"
type_synonym mat66 = "vec6 \<times> vec6 \<times> vec6 \<times> vec6 \<times> vec6 \<times> vec6"

text \<open>A sensor reading: its timestamp and its three components.\<close>

type_synonym reading = "quint64 \<times> qreal \<times> qreal \<times> qreal"

text \<open>\<^verbatim>\<open>DBL_EPSILON\<close> and \<^verbatim>\<open>FLT_EPSILON\<close> of \<^verbatim>\<open><cfloat>\<close>.\<close>

definition DBL_EPSILON :: qreal where
  "DBL_EPSILON = 1 / 2 ^ 52"

definition FLT_EPSILON :: qreal where
  "FLT_EPSILON = 1 / 2 ^ 23"

text \<open>
  \<^verbatim>\<open>std::is_same<qreal, double>::value\<close>: Qt's \<^verbatim>\<open>qreal\<close> is \<^verbatim>\<open>double\<close> unless Qt was
  configured otherwise. The theorems below use of \<open>EPSILON\<close> only that it lies between 0 and 1.
\<close>

definition qreal_is_double :: bool where
  "qreal_is_double = True"

definition EPSILON :: qreal where
  "EPSILON = (if qreal_is_double then DBL_EPSILON else FLT_EPSILON)"

text \<open>Qt's \<^verbatim>\<open>qDegreesToRadians\<close>, \<^verbatim>\<open>qRadiansToDegrees\<close> and \<^verbatim>\<open>QVector3D::length\<close>.\<close>

definition qDegreesToRadians :: "qreal \<Rightarrow> qreal" where
  "qDegreesToRadians degrees = degrees * (pi / 180)"

definition qRadiansToDegrees :: "qreal \<Rightarrow> qreal" where
  "qRadiansToDegrees radians = radians * (180 / pi)"

fun length3 :: "vec3 \<Rightarrow> qreal" where
  "length3 (x, y, z) = sqrt (x * x + y * y + z * z)"

text \<open>
  \<^verbatim>\<open>atan2\<close> of \<^verbatim>\<open><cmath>\<close> on the reals: the angle of the point \<open>(x, y)\<close> in
  \<open>(-\<pi>, \<pi>]\<close>, and 0 at the origin.
\<close>

definition atan2 :: "qreal \<Rightarrow> qreal \<Rightarrow> qreal" where
  "atan2 y x =
     (if 0 < x then arctan (y / x)
      else if x < 0 then (if 0 \<le> y then arctan (y / x) + pi else arctan (y / x) - pi)
      else if 0 < y then pi / 2
      else if y < 0 then - (pi / 2)
      else 0)"

text \<open>
  \<^verbatim>\<open>acos(d / n)\<close> followed by the source's \<^verbatim>\<open>std::isnan\<close> test: the quotient is NaN or
  infinite when \<open>n = 0\<close>, and \<^verbatim>\<open>acos\<close> is NaN outside \<open>[-1, 1]\<close>; the source then takes 0.
\<close>

definition acos_nan_to_zero :: "qreal \<Rightarrow> qreal \<Rightarrow> qreal" where
  "acos_nan_to_zero d n = (if n = 0 \<or> 1 < \<bar>d / n\<bar> then 0 else arccos (d / n))"

text \<open>Operations on 4-vectors and 4 by 4 matrices; \<open>mat4_scale\<close> is \<^verbatim>\<open>Q*wDeltaT\<close>.\<close>

fun dot4 :: "vec4 \<Rightarrow> vec4 \<Rightarrow> qreal" where
  "dot4 (a0, a1, a2, a3) (b0, b1, b2, b3) = a0 * b0 + a1 * b1 + a2 * b2 + a3 * b3"

fun neg4 :: "vec4 \<Rightarrow> vec4" where
  "neg4 (a0, a1, a2, a3) = (- a0, - a1, - a2, - a3)"


fun scale4 :: "qreal \<Rightarrow> vec4 \<Rightarrow> vec4" where
  "scale4 c (a0, a1, a2, a3) = (c * a0, c * a1, c * a2, c * a3)"

definition norm4 :: "vec4 \<Rightarrow> qreal" where
  "norm4 q = sqrt (dot4 q q)"


fun mat4_scale :: "mat4 \<Rightarrow> qreal \<Rightarrow> mat4" where
  "mat4_scale (r0, r1, r2, r3) c = (scale4 c r0, scale4 c r1, scale4 c r2, scale4 c r3)"

definition diag4 :: "qreal \<Rightarrow> mat4" where
  "diag4 d = ((d, 0, 0, 0), (0, d, 0, 0), (0, 0, d, 0), (0, 0, 0, d))"

definition zero4 :: mat4 where
  "zero4 = diag4 0"


subsection \<open>Quaternion utilities\<close>

text \<open>\<^verbatim>\<open>IMU::normalizeQuat\<close>: the matrix is updated in place; the model returns it.\<close>

fun normalizeQuat :: "vec4 \<Rightarrow> vec4" where
  "normalizeQuat (q0, q1, q2, q3) =
     (let norm = sqrt (q0 * q0 + q1 * q1 + q2 * q2 + q3 * q3) in
      if norm > EPSILON then (q0 / norm, q1 / norm, q2 / norm, q3 / norm)
      else (1, 1, 1, 1))"

text \<open>
  \<^verbatim>\<open>IMU::shortestPathQuat(prevQuat, quat)\<close> updates both arguments; the model returns the
  pair \<open>(prevQuat, quat)\<close> after the call.
\<close>

fun shortestPathQuat :: "vec4 \<Rightarrow> vec4 \<Rightarrow> vec4 \<times> vec4" where
  "shortestPathQuat (p0, p1, p2, p3) (q0, q1, q2, q3) =
     (let q = (if q0 * p0 + q1 * p1 + q2 * p2 + q3 * p3 < 0
               then (- q0, - q1, - q2, - q3) else (q0, q1, q2, q3))
      in (q, q))"

subsection \<open>The filter object and the estimator object\<close>

text \<open>
  The members of the filter object that \<^verbatim>\<open>IMU.cpp\<close> reads and writes, and the two
  error covariances of the kernel.
\<close>

record KalmanFilter =
  statePre :: vec4
  statePost :: vec4
  transitionMatrix :: mat4
  processNoiseCov :: mat4
  observationMatrix :: mat64
  observationNoiseCov :: mat66
  errorCovPre :: mat4
  errorCovPost :: mat4

text \<open>
  The members of \<^verbatim>\<open>IMU\<close>. The members \<^verbatim>\<open>filter\<close>, \<^verbatim>\<open>w\<close>, \<^verbatim>\<open>a\<close>, \<^verbatim>\<open>m\<close> and \<^verbatim>\<open>Q\<close> carry a
  suffix here. The silent-cycle counters are natural numbers (their declaration is not in
  \<^verbatim>\<open>src\<close>; no claim depends on their width). \<open>rotationChanged\<close> is not
  a member: it counts the emissions of the signal \<^verbatim>\<open>rotationChanged()\<close>. The messages
  written with \<^verbatim>\<open>qDebug\<close> are not modelled.
\<close>

record IMU =
  gyroId :: string
  accId :: string
  magId :: string
  lastGyroTimestamp :: quint64
  lastAccTimestamp :: quint64
  lastMagTimestamp :: quint64
  gyroSilentCycles :: nat
  accSilentCycles :: nat
  magSilentCycles :: nat
  filter_kf :: KalmanFilter
  startupTime :: qreal
  R_g_startup :: qreal
  R_y_startup :: qreal
  R_g_k_0 :: qreal
  R_g_k_w :: qreal
  R_g_k_g :: qreal
  R_y_k_0 :: qreal
  R_y_k_w :: qreal
  R_y_k_g :: qreal
  R_y_k_n :: qreal
  R_y_k_d :: qreal
  magDataReady :: bool
  m_norm_mean :: qreal
  m_dip_angle_mean :: qreal
  m_mean_alpha :: qreal
  process :: vec4
  statePreHistory :: vec4
  statePostHistory :: vec4
  observation :: vec6
  predictedObservation :: vec6
  Q_mat :: mat4
  wDeltaT :: qreal
  w_vec :: vec3
  w_norm :: qreal
  a_vec :: vec3
  a_norm :: qreal
  m_vec :: vec3
  m_norm :: qreal
  rotAxis :: vec3
  rotAngle :: qreal
  rotationChanged :: nat

subsection \<open>The process model\<close>

text \<open>
  \<^verbatim>\<open>IMU::calculateProcess\<close>. The diagonal of the transition matrix is not written (the
  four assignments are commented out in the source), so it keeps the entries it had.
\<close>

definition calculateProcess :: "IMU \<Rightarrow> IMU" where
  "calculateProcess s =
     (case statePost (filter_kf s) of (q0, q1, q2, q3) \<Rightarrow>
      case w_vec s of (wx, wy, wz) \<Rightarrow>
      case transitionMatrix (filter_kf s) of
        ((F00, F01, F02, F03), (F10, F11, F12, F13),
         (F20, F21, F22, F23), (F30, F31, F32, F33)) \<Rightarrow>
      let dT = wDeltaT s in
      s\<lparr>process := normalizeQuat
            (q0 + 0.5 * dT * (- q1 * wx - q2 * wy - q3 * wz),
             q1 + 0.5 * dT * (q0 * wx - q3 * wy + q2 * wz),
             q2 + 0.5 * dT * (q3 * wx + q0 * wy - q1 * wz),
             q3 + 0.5 * dT * (- q2 * wx + q1 * wy + q0 * wz)),
        filter_kf := (filter_kf s)
          \<lparr>transitionMatrix :=
             ((F00, - 0.5 * dT * wx, - 0.5 * dT * wy, - 0.5 * dT * wz),
              (0.5 * dT * wx, F11, 0.5 * dT * wz, - 0.5 * dT * wy),
              (0.5 * dT * wy, - 0.5 * dT * wz, F22, 0.5 * dT * wx),
              (0.5 * dT * wz, 0.5 * dT * wy, - 0.5 * dT * wx, F33)),
           processNoiseCov := mat4_scale (Q_mat s) dT\<rparr>\<rparr>)"

subsection \<open>The observation model\<close>

text \<open>The six assignments to the diagonal of \<^verbatim>\<open>filter.observationNoiseCov\<close>.\<close>

fun set_diagonal66 :: "mat66 \<Rightarrow> vec6 \<Rightarrow> mat66" where
  "set_diagonal66
     ((a00, a01, a02, a03, a04, a05), (a10, a11, a12, a13, a14, a15),
      (a20, a21, a22, a23, a24, a25), (a30, a31, a32, a33, a34, a35),
      (a40, a41, a42, a43, a44, a45), (a50, a51, a52, a53, a54, a55))
     (d0, d1, d2, d3, d4, d5) =
     ((d0, a01, a02, a03, a04, a05), (a10, d1, a12, a13, a14, a15),
      (a20, a21, d2, a23, a24, a25), (a30, a31, a32, d3, a34, a35),
      (a40, a41, a42, a43, d4, a45), (a50, a51, a52, a53, a54, d5))"

text \<open>
  \<^verbatim>\<open>IMU::calculateObservation\<close>. \<open>mag\<close> collects what the branch on \<^verbatim>\<open>magDataReady\<close>
  computes: entries 3 to 5 of the observation and of the predicted observation,
  \<^verbatim>\<open>R_y\<close>, and the two running means.
\<close>

definition calculateObservation :: "IMU \<Rightarrow> IMU" where
  "calculateObservation s =
     (case statePre (filter_kf s) of (q0, q1, q2, q3) \<Rightarrow>
      case a_vec s of (ax, ay, az) \<Rightarrow>
      let g = 9.81;
          R_DCM_z0 = 2 * (q1 * q3 - q0 * q2);
          R_DCM_z1 = 2 * (q2 * q3 + q0 * q1);
          R_DCM_z2 = q0 * q0 - q1 * q1 - q2 * q2 + q3 * q3;
          R_g = R_g_k_0 s + R_g_k_w s * w_norm s + R_g_k_g s * \<bar>g - a_norm s\<bar>;
          mag =
            (if magDataReady s then
               (case m_vec s of (mx, my, mz) \<Rightarrow>
                let dot_m_z = mx * R_DCM_z0 + my * R_DCM_z1 + mz * R_DCM_z2;
                    m_dip_angle = acos_nan_to_zero dot_m_z (m_norm s);
                    norm_mean =
                      (if m_norm_mean s < 0 then m_norm s
                       else m_mean_alpha s * m_norm_mean s + (1 - m_mean_alpha s) * m_norm s);
                    dip_mean =
                      (if m_dip_angle_mean s < 0 then m_dip_angle
                       else m_mean_alpha s * m_dip_angle_mean s
                            + (1 - m_mean_alpha s) * m_dip_angle);
                    ux = mx - dot_m_z * R_DCM_z0;
                    uy = my - dot_m_z * R_DCM_z1;
                    uz = mz - dot_m_z * R_DCM_z2;
                    uy_norm = sqrt (ux * ux + uy * uy + uz * uz);
                    u = (if uy_norm > EPSILON
                         then (ux / uy_norm, uy / uy_norm, uz / uy_norm) else (ux, uy, uz));
                    R_y = R_y_k_0 s + R_y_k_w s * w_norm s + R_y_k_g s * \<bar>g - a_norm s\<bar>
                          + R_y_k_n s * \<bar>m_norm s - norm_mean\<bar>
                          + R_y_k_d s * \<bar>m_dip_angle - dip_mean\<bar>
                in (u,
                    (2 * (q1 * q2 + q0 * q3),
                     q0 * q0 - q1 * q1 + q2 * q2 - q3 * q3,
                     2 * (q2 * q3 - q0 * q1)),
                    R_y, norm_mean, dip_mean))
             else ((0, 0, 0), (0, 0, 0), 1, m_norm_mean s, m_dip_angle_mean s))
      in case mag of ((o3, o4, o5), (p3, p4, p5), R_y, norm_mean, dip_mean) \<Rightarrow>
      s\<lparr>observation := (ax, ay, az, o3, o4, o5),
        predictedObservation := (R_DCM_z0 * g, R_DCM_z1 * g, R_DCM_z2 * g, p3, p4, p5),
        m_norm_mean := norm_mean,
        m_dip_angle_mean := dip_mean,
        filter_kf := (filter_kf s)
          \<lparr>observationMatrix :=
             ((- 2 * g * q2, 2 * g * q3, - 2 * g * q0, 2 * g * q1),
              (2 * g * q1, 2 * g * q0, 2 * g * q3, 2 * g * q2),
              (2 * g * q0, - 2 * g * q1, - 2 * g * q2, 2 * g * q3),
              (if magDataReady s then (2 * q3, 2 * q2, 2 * q1, 2 * q0) else (0, 0, 0, 0)),
              (if magDataReady s then (2 * q0, - 2 * q1, 2 * q2, - 2 * q3) else (0, 0, 0, 0)),
              (if magDataReady s then (- 2 * q1, - 2 * q0, 2 * q3, 2 * q2) else (0, 0, 0, 0))),
           observationNoiseCov :=
             set_diagonal66 (observationNoiseCov (filter_kf s))
               (if startupTime s > 0
                then (R_g_startup s, R_g_startup s, R_g_startup s,
                      R_y_startup s, R_y_startup s, R_y_startup s)
                else (R_g, R_g, R_g, R_y, R_y, R_y))\<rparr>,
        magDataReady := False\<rparr>)"

subsection \<open>Publishing\<close>

text \<open>
  \<^verbatim>\<open>IMU::calculateOutputRotation\<close>. The identifiers are compared with the empty string
  as in the source; \<^verbatim>\<open>emit rotationChanged()\<close> increments the emission counter.
\<close>

definition calculateOutputRotation :: "IMU \<Rightarrow> IMU" where
  "calculateOutputRotation s =
     (if gyroId s = '''' then s
      else
        let s1 = s\<lparr>gyroSilentCycles := gyroSilentCycles s + 1\<rparr>;
            s2 = (if accId s1 = '''' then s1
                  else s1\<lparr>accSilentCycles := accSilentCycles s1 + 1\<rparr>);
            s3 = (if magId s2 = '''' then s2
                  else s2\<lparr>magSilentCycles := magSilentCycles s2 + 1\<rparr>)
        in if startupTime s3 > 0 then s3
           else
             (case statePost (filter_kf s3) of (q0, q1, q2, q3) \<Rightarrow>
              let angle = 2 * atan2 (sqrt (q1 * q1 + q2 * q2 + q3 * q3)) q0;
                  s4 = (if angle < EPSILON then s3\<lparr>rotAxis := (0, 0, 0), rotAngle := 0\<rparr>
                        else
                          let sTheta2 = sin (angle / 2)
                          in s3\<lparr>rotAxis := (q1 * sTheta2, q2 * sTheta2, q3 * sTheta2),
                                rotAngle := qRadiansToDegrees angle\<rparr>)
              in s4\<lparr>rotationChanged := rotationChanged s4 + 1\<rparr>))"

text \<open>\<^verbatim>\<open>IMU::getRotAxis\<close> and \<^verbatim>\<open>IMU::getRotAngle\<close>.\<close>

definition getRotAxis :: "IMU \<Rightarrow> vec3" where
  "getRotAxis s = rotAxis s"

definition getRotAngle :: "IMU \<Rightarrow> qreal" where
  "getRotAngle s = rotAngle s"

subsection \<open>The three sample handlers\<close>

text \<open>
  The class of \<^verbatim>\<open>filter\<close> is not in \<^verbatim>\<open>src\<close>, so the handlers take its two operations
  as parameters: \<open>predict\<close> for \<^verbatim>\<open>filter.predict(process)\<close> and \<open>correct\<close> for
  \<^verbatim>\<open>filter.correct(observation, predictedObservation)\<close>. Both act on the filter object
  only, and matrices are values: no two members share storage. The reading of the sensor
  is the handler's argument.

  \<^verbatim>\<open>IMU::gyroReadingChanged\<close>. The difference of the two \<^verbatim>\<open>quint64\<close> timestamps is taken
  in 64-bit words before the conversion to \<^verbatim>\<open>qreal\<close>.
\<close>

definition gyroReadingChanged ::
  "(KalmanFilter \<Rightarrow> vec4 \<Rightarrow> KalmanFilter) \<Rightarrow> reading \<Rightarrow> IMU \<Rightarrow> IMU" where
  "gyroReadingChanged predict r s =
     (case r of (timestamp, x, y, z) \<Rightarrow>
      (if lastGyroTimestamp s > 0 then
         let dT = real (unat (timestamp - lastGyroTimestamp s)) / 1000000;
             s1 = s\<lparr>wDeltaT := dT\<rparr>
         in if dT > 0 then
              let wv = (qDegreesToRadians x, qDegreesToRadians y, qDegreesToRadians z);
                  s2 = s1\<lparr>gyroSilentCycles := 0,
                          startupTime :=
                            (if startupTime s > 0 then startupTime s - dT else startupTime s),
                          w_vec := wv,
                          w_norm := length3 wv\<rparr>;
                  s3 = calculateProcess s2;
                  f1 = predict (filter_kf s3) (process s3);
                  f2 = f1\<lparr>statePre := normalizeQuat (statePre f1)\<rparr>;
                  hq = shortestPathQuat (statePreHistory s3) (statePre f2);
                  f3 = f2\<lparr>statePre := snd hq\<rparr>;
                  f4 = f3\<lparr>statePost := statePre f3\<rparr>
              in calculateOutputRotation (s3\<lparr>statePreHistory := fst hq, filter_kf := f4\<rparr>)
            else s1
       else s)
      \<lparr>lastGyroTimestamp := timestamp\<rparr>)"

text \<open>\<^verbatim>\<open>IMU::accReadingChanged\<close>.\<close>

definition accReadingChanged ::
  "(KalmanFilter \<Rightarrow> vec6 \<Rightarrow> vec6 \<Rightarrow> KalmanFilter) \<Rightarrow> reading \<Rightarrow> IMU \<Rightarrow> IMU" where
  "accReadingChanged correct r s =
     (case r of (timestamp, x, y, z) \<Rightarrow>
      (if lastAccTimestamp s > 0 then
         if real (unat (timestamp - lastAccTimestamp s)) / 1000000 > 0 then
           let s1 = s\<lparr>accSilentCycles := 0, a_vec := (x, y, z), a_norm := length3 (x, y, z)\<rparr>;
               s2 = calculateObservation s1;
               f1 = correct (filter_kf s2) (observation s2) (predictedObservation s2);
               f2 = f1\<lparr>statePost := normalizeQuat (statePost f1)\<rparr>;
               hq = shortestPathQuat (statePostHistory s2) (statePost f2);
               f3 = f2\<lparr>statePost := snd hq\<rparr>
           in calculateOutputRotation (s2\<lparr>statePostHistory := fst hq, filter_kf := f3\<rparr>)
         else s
       else s)
      \<lparr>lastAccTimestamp := timestamp\<rparr>)"

text \<open>\<^verbatim>\<open>IMU::magReadingChanged\<close>.\<close>

definition magReadingChanged :: "reading \<Rightarrow> IMU \<Rightarrow> IMU" where
  "magReadingChanged r s =
     (case r of (timestamp, x, y, z) \<Rightarrow>
      (if lastMagTimestamp s > 0 then
         if real (unat (timestamp - lastMagTimestamp s)) / 1000000 > 0 then
           let mv = (x * 1000000, y * 1000000, z * 1000000)
           in s\<lparr>magSilentCycles := 0, m_vec := mv, m_norm := length3 mv,
                magDataReady := True\<rparr>
         else s
       else s)
      \<lparr>lastMagTimestamp := timestamp\<rparr>)"

text \<open>The samples delivered to the estimator, and the run of a sequence of them.\<close>

datatype sample = GyroSample reading | AccSample reading | MagSample reading

fun deliver ::
  "(KalmanFilter \<Rightarrow> vec4 \<Rightarrow> KalmanFilter) \<Rightarrow> (KalmanFilter \<Rightarrow> vec6 \<Rightarrow> vec6 \<Rightarrow> KalmanFilter)
     \<Rightarrow> sample \<Rightarrow> IMU \<Rightarrow> IMU" where
  "deliver predict correct (GyroSample r) s = gyroReadingChanged predict r s"
| "deliver predict correct (AccSample r) s = accReadingChanged correct r s"
| "deliver predict correct (MagSample r) s = magReadingChanged r s"

fun run ::
  "(KalmanFilter \<Rightarrow> vec4 \<Rightarrow> KalmanFilter) \<Rightarrow> (KalmanFilter \<Rightarrow> vec6 \<Rightarrow> vec6 \<Rightarrow> KalmanFilter)
     \<Rightarrow> sample list \<Rightarrow> IMU \<Rightarrow> IMU" where
  "run predict correct [] s = s"
| "run predict correct (e # es) s = run predict correct es (deliver predict correct e s)"

fun is_gyro :: "sample \<Rightarrow> bool" where
  "is_gyro (GyroSample r) = True"
| "is_gyro (AccSample r) = False"
| "is_gyro (MagSample r) = False"

subsection \<open>The filter kernel and the constructor\<close>

text \<open>
  The kernel works on matrices of any size: lists of rows. The conversions take the
  fixed-size matrices of the filter object to lists and back.
\<close>

type_synonym matrix = "qreal list list"

definition m_mul :: "matrix \<Rightarrow> matrix \<Rightarrow> matrix" where
  "m_mul A B = map (\<lambda>r. map (\<lambda>c. sum_list (map2 (*) r c)) (transpose B)) A"

definition m_add :: "matrix \<Rightarrow> matrix \<Rightarrow> matrix" where
  "m_add A B = map2 (map2 (+)) A B"

definition m_sub :: "matrix \<Rightarrow> matrix \<Rightarrow> matrix" where
  "m_sub A B = map2 (map2 (-)) A B"

definition m_ident :: "nat \<Rightarrow> matrix" where
  "m_ident n = map (\<lambda>i. map (\<lambda>j. if i = j then 1 else 0) [0..<n]) [0..<n]"

text \<open>The inverse of a square matrix, where it has one.\<close>

definition m_inv :: "matrix \<Rightarrow> matrix" where
  "m_inv S =
     (THE X. length X = length S \<and> list_all (\<lambda>r. length r = length S) X
             \<and> m_mul X S = m_ident (length S))"

fun list4 :: "vec4 \<Rightarrow> qreal list" where
  "list4 (a0, a1, a2, a3) = [a0, a1, a2, a3]"

fun list6 :: "vec6 \<Rightarrow> qreal list" where
  "list6 (a0, a1, a2, a3, a4, a5) = [a0, a1, a2, a3, a4, a5]"

fun rows4 :: "mat4 \<Rightarrow> matrix" where
  "rows4 (r0, r1, r2, r3) = [list4 r0, list4 r1, list4 r2, list4 r3]"

fun rows64 :: "mat64 \<Rightarrow> matrix" where
  "rows64 (r0, r1, r2, r3, r4, r5) = [list4 r0, list4 r1, list4 r2, list4 r3, list4 r4, list4 r5]"

fun rows66 :: "mat66 \<Rightarrow> matrix" where
  "rows66 (r0, r1, r2, r3, r4, r5) = [list6 r0, list6 r1, list6 r2, list6 r3, list6 r4, list6 r5]"

definition column :: "qreal list \<Rightarrow> matrix" where
  "column xs = map (\<lambda>x. [x]) xs"

definition vec4_of :: "qreal list \<Rightarrow> vec4" where
  "vec4_of xs = (xs ! 0, xs ! 1, xs ! 2, xs ! 3)"

definition mat4_of :: "matrix \<Rightarrow> mat4" where
  "mat4_of M = (vec4_of (M ! 0), vec4_of (M ! 1), vec4_of (M ! 2), vec4_of (M ! 3))"

text \<open>
  Modelled from the spec: \<^verbatim>\<open>filter.predict(process)\<close>; the class of \<^verbatim>\<open>filter\<close> is not in
  \<^verbatim>\<open>src\<close>. Section 4.2: \<^verbatim>\<open>x_prior <- f\<close>; \<^verbatim>\<open>P_prior <- F P_post F^T + Q_k\<close>; \<^verbatim>\<open>x_post\<close> is
  left unchanged.
\<close>

definition ekf_predict :: "KalmanFilter \<Rightarrow> vec4 \<Rightarrow> KalmanFilter" where
  "ekf_predict f p =
     (let F = rows4 (transitionMatrix f)
      in f\<lparr>statePre := p,
           errorCovPre :=
             mat4_of (m_add (m_mul (m_mul F (rows4 (errorCovPost f))) (transpose F))
                            (rows4 (processNoiseCov f)))\<rparr>)"

text \<open>
  Modelled from the spec: \<^verbatim>\<open>filter.correct(observation, predictedObservation)\<close>; the
  class of \<^verbatim>\<open>filter\<close> is not in \<^verbatim>\<open>src\<close>. Section 4.2: \<^verbatim>\<open>S <- H P_prior H^T + R_k\<close>;
  \<^verbatim>\<open>K <- P_prior H^T S^-1\<close>; \<^verbatim>\<open>x_post <- x_prior + K (z - h)\<close>;
  \<^verbatim>\<open>P_post <- (I - K H) P_prior\<close>.
\<close>

definition ekf_correct :: "KalmanFilter \<Rightarrow> vec6 \<Rightarrow> vec6 \<Rightarrow> KalmanFilter" where
  "ekf_correct f z h =
     (let H = rows64 (observationMatrix f);
          P = rows4 (errorCovPre f);
          S = m_add (m_mul (m_mul H P) (transpose H)) (rows66 (observationNoiseCov f));
          K = m_mul (m_mul P (transpose H)) (m_inv S);
          x = m_add (column (list4 (statePre f)))
                    (m_mul K (m_sub (column (list6 z)) (column (list6 h))))
      in f\<lparr>statePost := vec4_of (concat x),
           errorCovPost := mat4_of (m_mul (m_sub (m_ident 4) (m_mul K H)) P)\<rparr>)"

text \<open>
  Modelled from the spec: the filter object as \<^verbatim>\<open>filter(4, 6, CV_TYPE)\<close> constructs it;
  the constructor of its class is not in \<^verbatim>\<open>src\<close>. Section 4.3 gives the transition matrix
  a unit diagonal, which \<^verbatim>\<open>calculateProcess\<close> never writes; the states and the other
  matrices are zero until a step writes them.
\<close>

definition KalmanFilter_init :: KalmanFilter where
  "KalmanFilter_init =
     \<lparr>statePre = (0, 0, 0, 0),
      statePost = (0, 0, 0, 0),
      transitionMatrix = diag4 1,
      processNoiseCov = zero4,
      observationMatrix = ((0, 0, 0, 0), (0, 0, 0, 0), (0, 0, 0, 0),
                           (0, 0, 0, 0), (0, 0, 0, 0), (0, 0, 0, 0)),
      observationNoiseCov = ((0, 0, 0, 0, 0, 0), (0, 0, 0, 0, 0, 0), (0, 0, 0, 0, 0, 0),
                             (0, 0, 0, 0, 0, 0), (0, 0, 0, 0, 0, 0), (0, 0, 0, 0, 0, 0)),
      errorCovPre = zero4,
      errorCovPost = zero4\<rparr>"

text \<open>
  The constructor \<^verbatim>\<open>IMU::IMU\<close>. Its loop over the sensors of the platform is not
  modelled: the first three parameters are the identifiers the loop has stored, the
  empty string for a stream it opened no sensor for.

  The constructor does not assign \<^verbatim>\<open>rotAxis\<close>, \<^verbatim>\<open>w\<close>, \<^verbatim>\<open>a\<close> and \<^verbatim>\<open>m\<close>: they are
  \<^verbatim>\<open>QVector3D\<close>, whose default constructor gives the zero vector. It does not assign
  \<^verbatim>\<open>wDeltaT\<close>, \<^verbatim>\<open>w_norm\<close>, \<^verbatim>\<open>a_norm\<close> and \<^verbatim>\<open>m_norm\<close> either: they start at 0 here, and no
  value computed from them reaches the state before a handler has written them.

  Neither the initialiser list nor the body of the constructor assigns \<^verbatim>\<open>rotAngle\<close>, a
  \<^verbatim>\<open>qreal\<close>, which \<^verbatim>\<open>getRotAngle\<close> returns and only \<^verbatim>\<open>calculateOutputRotation\<close> writes. The
  member starts with whatever its storage holds when the object is constructed: that
  content is the fourth parameter, \<open>content\<close>.
\<close>

definition IMU_init :: "string \<Rightarrow> string \<Rightarrow> string \<Rightarrow> qreal \<Rightarrow> IMU" where
  "IMU_init gid aid mid content =
     \<lparr>gyroId = gid,
      accId = aid,
      magId = mid,
      lastGyroTimestamp = 0,
      lastAccTimestamp = 0,
      lastMagTimestamp = 0,
      gyroSilentCycles = 0,
      accSilentCycles = 0,
      magSilentCycles = 0,
      filter_kf = KalmanFilter_init
        \<lparr>statePre := (1, 0, 0, 0), statePost := (1, 0, 0, 0), errorCovPre := diag4 (1 / 10000)\<rparr>,
      startupTime = 1,
      R_g_startup = 1 / 10,
      R_y_startup = 1 / 1000,
      R_g_k_0 = 1,
      R_g_k_w = 7.5,
      R_g_k_g = 10,
      R_y_k_0 = 10,
      R_y_k_w = 7.5,
      R_y_k_g = 10,
      R_y_k_n = 20,
      R_y_k_d = 15,
      magDataReady = False,
      m_norm_mean = - 1,
      m_dip_angle_mean = - 1,
      m_mean_alpha = 0.99,
      process = (1, 0, 0, 0),
      statePreHistory = (1, 0, 0, 0),
      statePostHistory = (1, 0, 0, 0),
      observation = (0, 0, 9.81, 0, 1, 0),
      predictedObservation = (0, 0, 9.81, 0, 1, 0),
      Q_mat = diag4 (1 / 10000),
      wDeltaT = 0,
      w_vec = (0, 0, 0),
      w_norm = 0,
      a_vec = (0, 0, 0),
      a_norm = 0,
      m_vec = (0, 0, 0),
      m_norm = 0,
      rotAxis = (0, 0, 0),
      rotAngle = content,
      rotationChanged = 0\<rparr>"

subsection \<open>Notions of the specification\<close>

text \<open>
  The test that each of the three handlers makes before it processes a sample: the
  stored timestamp of the stream is positive, and the converted difference to the
  sample's timestamp is positive.
\<close>

definition fresh :: "quint64 \<Rightarrow> quint64 \<Rightarrow> bool" where
  "fresh t_last timestamp = (t_last > 0 \<and> real (unat (timestamp - t_last)) / 1000000 > 0)"

text \<open>
  The state in which \<^verbatim>\<open>gyroReadingChanged\<close> calls \<^verbatim>\<open>calculateProcess\<close>: the time step,
  the countdown and the angular velocity of the sample are stored.
\<close>

definition gyro_stored :: "reading \<Rightarrow> IMU \<Rightarrow> IMU" where
  "gyro_stored r s =
     (case r of (timestamp, x, y, z) \<Rightarrow>
      let dT = real (unat (timestamp - lastGyroTimestamp s)) / 1000000;
          wv = (qDegreesToRadians x, qDegreesToRadians y, qDegreesToRadians z)
      in s\<lparr>wDeltaT := dT,
           gyroSilentCycles := 0,
           startupTime := (if startupTime s > 0 then startupTime s - dT else startupTime s),
           w_vec := wv,
           w_norm := length3 wv\<rparr>)"

text \<open>
  A sample is accepted when its handler processes it. \<open>none_accepted k\<close> holds of a run
  in which no sample of the kind \<open>k\<close> is accepted.
\<close>

fun is_acc :: "sample \<Rightarrow> bool" where
  "is_acc (GyroSample r) = False"
| "is_acc (AccSample r) = True"
| "is_acc (MagSample r) = False"

fun accepted :: "sample \<Rightarrow> IMU \<Rightarrow> bool" where
  "accepted (GyroSample r) s = fresh (lastGyroTimestamp s) (fst r)"
| "accepted (AccSample r) s = fresh (lastAccTimestamp s) (fst r)"
| "accepted (MagSample r) s = fresh (lastMagTimestamp s) (fst r)"

fun none_accepted ::
  "(sample \<Rightarrow> bool) \<Rightarrow> (KalmanFilter \<Rightarrow> vec4 \<Rightarrow> KalmanFilter)
     \<Rightarrow> (KalmanFilter \<Rightarrow> vec6 \<Rightarrow> vec6 \<Rightarrow> KalmanFilter) \<Rightarrow> sample list \<Rightarrow> IMU \<Rightarrow> bool" where
  "none_accepted k predict correct [] s = True"
| "none_accepted k predict correct (e # es) s =
     (if k e \<and> accepted e s then False
      else none_accepted k predict correct es (deliver predict correct e s))"




text \<open>
  An estimator with all three sensors open, constructed in storage that held 0 where
  \<^verbatim>\<open>rotAngle\<close> lies, that has received the first sample of each stream, with the filter
  kernel of the specification.
\<close>

definition first_samples_seen :: IMU where
  "first_samples_seen =
     run ekf_predict ekf_correct
       [GyroSample (1, 0, 0, 0), AccSample (1, 0, 0, 9.81), MagSample (1, 0, 0, 0)]
       (IMU_init ''gyro'' ''acc'' ''mag'' 0)"

section \<open>Properties\<close>

subsection \<open>Basic facts\<close>

lemma EPSILON_pos: "0 < EPSILON"
  by (simp add: EPSILON_def DBL_EPSILON_def FLT_EPSILON_def)

lemma EPSILON_lt_one: "EPSILON < 1"
  by (simp add: EPSILON_def DBL_EPSILON_def FLT_EPSILON_def qreal_is_double_def)

lemma fresh_iff: "fresh t_last timestamp \<longleftrightarrow> t_last \<noteq> 0 \<and> timestamp \<noteq> t_last"
  by (simp del: of_nat_unat add: fresh_def unat_gt_0 word_greater_zero_iff)

lemma norm4_divide:
  assumes "0 < n" and "n = sqrt (q0\<^sup>2 + q1\<^sup>2 + q2\<^sup>2 + q3\<^sup>2)"
  shows "norm4 (q0 / n, q1 / n, q2 / n, q3 / n) = 1"
proof -
  have "(q0 / n) * (q0 / n) + (q1 / n) * (q1 / n) + (q2 / n) * (q2 / n) + (q3 / n) * (q3 / n)
        = (q0\<^sup>2 + q1\<^sup>2 + q2\<^sup>2 + q3\<^sup>2) / n\<^sup>2"
    by (simp add: power2_eq_square add_divide_distrib)
  also have "n\<^sup>2 = q0\<^sup>2 + q1\<^sup>2 + q2\<^sup>2 + q3\<^sup>2"
    using assms by simp
  finally show ?thesis
    using assms by (simp add: norm4_def)
qed

lemma spq_fst: "fst (shortestPathQuat a b) = snd (shortestPathQuat a b)"
  by (cases a, cases b) (simp add: Let_def)

lemma spq_dot: "0 \<le> dot4 (snd (shortestPathQuat a b)) a"
  by (cases a, cases b) (simp add: Let_def)

lemma spq_sign: "snd (shortestPathQuat a b) = b \<or> snd (shortestPathQuat a b) = neg4 b"
  by (cases a, cases b) (simp add: Let_def)

lemma sqrt_25_9: "sqrt (25 / 9) = 5 / 3"
  by (rule real_sqrt_unique) (simp_all add: power2_eq_square)

lemma sqrt_16_25: "sqrt (16 / 25) = 4 / 5"
  by (rule real_sqrt_unique) (simp_all add: power2_eq_square)

lemma normalize_1_43: "normalizeQuat (1, 4 / 3, 0, 0) = (3 / 5, 4 / 5, 0, 0)"
  using EPSILON_lt_one by (simp add: Let_def sqrt_25_9)

lemma normalize_35_45: "normalizeQuat (3 / 5, 4 / 5, 0, 0) = (3 / 5, 4 / 5, 0, 0)"
  using EPSILON_lt_one by (simp add: Let_def)

subsection \<open>What each function leaves alone\<close>

lemma cor_frame:
  "startupTime (calculateOutputRotation s) = startupTime s"
  "gyroId (calculateOutputRotation s) = gyroId s"
  "accId (calculateOutputRotation s) = accId s"
  "magId (calculateOutputRotation s) = magId s"
  "filter_kf (calculateOutputRotation s) = filter_kf s"
  "statePreHistory (calculateOutputRotation s) = statePreHistory s"
  "statePostHistory (calculateOutputRotation s) = statePostHistory s"
  "wDeltaT (calculateOutputRotation s) = wDeltaT s"
  "a_vec (calculateOutputRotation s) = a_vec s"
  "process (calculateOutputRotation s) = process s"
  "lastGyroTimestamp (calculateOutputRotation s) = lastGyroTimestamp s"
  "lastAccTimestamp (calculateOutputRotation s) = lastAccTimestamp s"
  "lastMagTimestamp (calculateOutputRotation s) = lastMagTimestamp s"
  by (simp_all add: calculateOutputRotation_def Let_def split_beta)

lemma cp_frame:
  "startupTime (calculateProcess s) = startupTime s"
  "gyroId (calculateProcess s) = gyroId s"
  "accId (calculateProcess s) = accId s"
  "magId (calculateProcess s) = magId s"
  "rotationChanged (calculateProcess s) = rotationChanged s"
  "rotAxis (calculateProcess s) = rotAxis s"
  "rotAngle (calculateProcess s) = rotAngle s"
  "statePreHistory (calculateProcess s) = statePreHistory s"
  "statePostHistory (calculateProcess s) = statePostHistory s"
  "wDeltaT (calculateProcess s) = wDeltaT s"
  "gyroSilentCycles (calculateProcess s) = gyroSilentCycles s"
  "accSilentCycles (calculateProcess s) = accSilentCycles s"
  "magSilentCycles (calculateProcess s) = magSilentCycles s"
  "lastGyroTimestamp (calculateProcess s) = lastGyroTimestamp s"
  "lastAccTimestamp (calculateProcess s) = lastAccTimestamp s"
  "lastMagTimestamp (calculateProcess s) = lastMagTimestamp s"
  by (simp_all add: calculateProcess_def Let_def split_beta)

lemma co_frame:
  "startupTime (calculateObservation s) = startupTime s"
  "gyroId (calculateObservation s) = gyroId s"
  "accId (calculateObservation s) = accId s"
  "magId (calculateObservation s) = magId s"
  "rotationChanged (calculateObservation s) = rotationChanged s"
  "rotAxis (calculateObservation s) = rotAxis s"
  "rotAngle (calculateObservation s) = rotAngle s"
  "statePreHistory (calculateObservation s) = statePreHistory s"
  "statePostHistory (calculateObservation s) = statePostHistory s"
  "a_vec (calculateObservation s) = a_vec s"
  "gyroSilentCycles (calculateObservation s) = gyroSilentCycles s"
  "accSilentCycles (calculateObservation s) = accSilentCycles s"
  "magSilentCycles (calculateObservation s) = magSilentCycles s"
  "lastGyroTimestamp (calculateObservation s) = lastGyroTimestamp s"
  "lastAccTimestamp (calculateObservation s) = lastAccTimestamp s"
  "lastMagTimestamp (calculateObservation s) = lastMagTimestamp s"
  by (simp_all add: calculateObservation_def Let_def split_beta)

lemmas frames = cor_frame cp_frame co_frame

lemma mag_frame:
  "startupTime (magReadingChanged r s) = startupTime s"
  "filter_kf (magReadingChanged r s) = filter_kf s"
  "rotationChanged (magReadingChanged r s) = rotationChanged s"
  "rotAxis (magReadingChanged r s) = rotAxis s"
  "rotAngle (magReadingChanged r s) = rotAngle s"
  "statePreHistory (magReadingChanged r s) = statePreHistory s"
  "statePostHistory (magReadingChanged r s) = statePostHistory s"
  "lastGyroTimestamp (magReadingChanged r s) = lastGyroTimestamp s"
  "lastAccTimestamp (magReadingChanged r s) = lastAccTimestamp s"
  "gyroId (magReadingChanged r s) = gyroId s"
  by (simp_all del: of_nat_unat add: magReadingChanged_def Let_def split_beta)

lemma acc_frame:
  "lastGyroTimestamp (accReadingChanged correct r s) = lastGyroTimestamp s"
  "lastMagTimestamp (accReadingChanged correct r s) = lastMagTimestamp s"
  "gyroId (accReadingChanged correct r s) = gyroId s"
  by (simp_all del: of_nat_unat add: accReadingChanged_def Let_def split_beta frames)

lemma gyro_frame:
  "lastAccTimestamp (gyroReadingChanged predict r s) = lastAccTimestamp s"
  "lastMagTimestamp (gyroReadingChanged predict r s) = lastMagTimestamp s"
  "gyroId (gyroReadingChanged predict r s) = gyroId s"
  by (simp_all del: of_nat_unat add: gyroReadingChanged_def Let_def split_beta frames)

subsection \<open>Publishing\<close>

lemma cor_startup_pos:
  "0 < startupTime s \<Longrightarrow>
     calculateOutputRotation s =
       (if gyroId s = '''' then s
        else s\<lparr>gyroSilentCycles := gyroSilentCycles s + 1,
               accSilentCycles :=
                 (if accId s = '''' then accSilentCycles s else accSilentCycles s + 1),
               magSilentCycles :=
                 (if magId s = '''' then magSilentCycles s else magSilentCycles s + 1)\<rparr>)"
  by (simp add: calculateOutputRotation_def Let_def)

lemma cor_no_gyro: "gyroId s = '''' \<Longrightarrow> calculateOutputRotation s = s"
  by (simp add: calculateOutputRotation_def)

lemma cor_rotationChanged:
  "rotationChanged (calculateOutputRotation s) =
     (if gyroId s = '''' \<or> 0 < startupTime s then rotationChanged s else rotationChanged s + 1)"
  by (simp add: calculateOutputRotation_def Let_def split_beta)

lemma pub_35_45:
  assumes "statePost (filter_kf s) = (3 / 5, 4 / 5, 0, 0)" "gyroId s \<noteq> ''''" "startupTime s \<le> 0"
  shows "rotAxis (calculateOutputRotation s) = (16 / 25, 0, 0)"
    and "rotAngle (calculateOutputRotation s) = qRadiansToDegrees (2 * arctan (4 / 3))"
proof -
  have a: "atan2 (4 / 5) (3 / 5) = arctan (4 / 3)"
    by (simp add: atan2_def)
  have "arctan 1 < arctan (4 / 3)"
    by (simp add: arctan_less_iff)
  then have "1 / 2 < arctan (4 / 3)"
    using pi_ge_two by (simp add: arctan_one)
  then have big: "\<not> 2 * arctan (4 / 3) < EPSILON"
    using EPSILON_lt_one by linarith
  have sn: "sin (arctan (4 / 3)) = 4 / 5"
    by (simp add: sin_arctan power2_eq_square real_sqrt_divide)
  show "rotAxis (calculateOutputRotation s) = (16 / 25, 0, 0)"
    using assms big by (simp add: calculateOutputRotation_def Let_def sqrt_16_25 a sn)
  show "rotAngle (calculateOutputRotation s) = qRadiansToDegrees (2 * arctan (4 / 3))"
    using assms big by (simp add: calculateOutputRotation_def Let_def sqrt_16_25 a sn)
qed

text \<open>
  For a unit posterior, the sine of the half angle is the length of the vector part, so
  the published axis, the vector part times that sine, has the square of that length
  as its length. The published angle is 0 or the angle in degrees.
\<close>

lemma sin_atan2_unit:
  assumes "0 \<le> v" and "c\<^sup>2 + v\<^sup>2 = 1"
  shows "sin (atan2 v c) = v"
proof -
  have root: "sqrt (1 + (v / c)\<^sup>2) = 1 / \<bar>c\<bar>" if "c \<noteq> 0"
  proof -
    have "1 + (v / c)\<^sup>2 = (c\<^sup>2 + v\<^sup>2) / c\<^sup>2"
      using that by (simp add: power_divide add_divide_distrib)
    also have "\<dots> = (1 / \<bar>c\<bar>)\<^sup>2"
      using assms(2) by (simp add: power_divide)
    finally show ?thesis
      by (simp del: power_divide)
  qed
  consider "0 < c" | "c < 0" | "c = 0" by linarith
  then show ?thesis
  proof cases
    case 1
    then show ?thesis
      using root by (simp add: atan2_def sin_arctan)
  next
    case 2
    then show ?thesis
      using root assms(1) by (simp add: atan2_def sin_arctan)
  next
    case 3
    with assms have "v = 1"
      by (simp add: power2_eq_1_iff)
    with 3 show ?thesis
      by (simp add: atan2_def)
  qed
qed

lemma published_axis_length:
  assumes post: "statePost (filter_kf s) = (q0, q1, q2, q3)"
    and unit: "q0\<^sup>2 + q1\<^sup>2 + q2\<^sup>2 + q3\<^sup>2 = 1"
    and gid: "gyroId s \<noteq> ''''"
    and over: "startupTime s \<le> 0"
    and big: "\<not> 2 * atan2 (sqrt (q1\<^sup>2 + q2\<^sup>2 + q3\<^sup>2)) q0 < EPSILON"
  shows "length3 (rotAxis (calculateOutputRotation s)) = q1\<^sup>2 + q2\<^sup>2 + q3\<^sup>2"
proof -
  define n where "n = sqrt (q1\<^sup>2 + q2\<^sup>2 + q3\<^sup>2)"
  have n0: "0 \<le> n" by (simp add: n_def)
  have n2: "n\<^sup>2 = q1\<^sup>2 + q2\<^sup>2 + q3\<^sup>2" by (simp add: n_def)
  have eq: "sqrt (q1 * q1 + q2 * q2 + q3 * q3) = n"
    by (simp add: n_def power2_eq_square)
  have "q0\<^sup>2 + n\<^sup>2 = 1" using unit n2 by simp
  from sin_atan2_unit [OF n0 this] have sn: "sin (atan2 n q0) = n" .
  have axis: "rotAxis (calculateOutputRotation s) = (q1 * n, q2 * n, q3 * n)"
    using post gid over big
    by (simp add: calculateOutputRotation_def Let_def eq n_def [symmetric] sn)
  have "(q1 * n) * (q1 * n) + (q2 * n) * (q2 * n) + (q3 * n) * (q3 * n)
      = n\<^sup>2 * (q1\<^sup>2 + q2\<^sup>2 + q3\<^sup>2)"
    by (simp add: power2_eq_square algebra_simps)
  also have "\<dots> = (q1\<^sup>2 + q2\<^sup>2 + q3\<^sup>2)\<^sup>2"
    unfolding n2 by (simp add: power2_eq_square)
  finally have "length3 (q1 * n, q2 * n, q3 * n) = \<bar>q1\<^sup>2 + q2\<^sup>2 + q3\<^sup>2\<bar>"
    by simp
  then show ?thesis
    unfolding axis by simp
qed

lemma published_angle_degrees:
  assumes post: "statePost (filter_kf s) = (q0, q1, q2, q3)"
    and gid: "gyroId s \<noteq> ''''"
    and over: "startupTime s \<le> 0"
  shows "rotAngle (calculateOutputRotation s) =
      (if 2 * atan2 (sqrt (q1\<^sup>2 + q2\<^sup>2 + q3\<^sup>2)) q0 < EPSILON then 0
       else qRadiansToDegrees (2 * atan2 (sqrt (q1\<^sup>2 + q2\<^sup>2 + q3\<^sup>2)) q0))"
    and "2 * atan2 (sqrt (q1\<^sup>2 + q2\<^sup>2 + q3\<^sup>2)) q0 < EPSILON \<Longrightarrow>
      rotAxis (calculateOutputRotation s) = (0, 0, 0)"
  using post gid over
  by (simp_all add: calculateOutputRotation_def Let_def power2_eq_square)

subsection \<open>The gyroscope handler\<close>

lemma gyro_dropped:
  "\<not> fresh (lastGyroTimestamp s) timestamp \<Longrightarrow>
     gyroReadingChanged predict (timestamp, x, y, z) s =
       (if lastGyroTimestamp s > 0 then s\<lparr>wDeltaT := 0\<rparr> else s)\<lparr>lastGyroTimestamp := timestamp\<rparr>"
  by (auto simp del: of_nat_unat simp add: gyroReadingChanged_def fresh_def Let_def not_less)

lemma gyro_accepted:
  "fresh (lastGyroTimestamp s) timestamp \<Longrightarrow>
     gyroReadingChanged predict (timestamp, x, y, z) s =
       (let s3 = calculateProcess (gyro_stored (timestamp, x, y, z) s);
            f1 = predict (filter_kf s3) (process s3);
            q = snd (shortestPathQuat (statePreHistory s) (normalizeQuat (statePre f1)))
        in calculateOutputRotation
             (s3\<lparr>statePreHistory := q, filter_kf := f1\<lparr>statePre := q, statePost := q\<rparr>\<rparr>))
       \<lparr>lastGyroTimestamp := timestamp\<rparr>"
  by (simp del: of_nat_unat
      add: gyroReadingChanged_def gyro_stored_def fresh_def Let_def frames spq_fst)

lemma gyro_wDeltaT:
  "wDeltaT (gyroReadingChanged predict (timestamp, x, y, z) s) =
     (if lastGyroTimestamp s > 0
      then real (unat (timestamp - lastGyroTimestamp s)) / 1000000 else wDeltaT s)"
  by (simp del: of_nat_unat add: gyroReadingChanged_def Let_def frames)

lemma gyro_last:
  "lastGyroTimestamp (gyroReadingChanged predict (timestamp, x, y, z) s) = timestamp"
  by (simp add: gyroReadingChanged_def)

lemma gyro_startupTime:
  "startupTime (gyroReadingChanged predict (timestamp, x, y, z) s) =
     (if fresh (lastGyroTimestamp s) timestamp \<and> 0 < startupTime s
      then startupTime s - real (unat (timestamp - lastGyroTimestamp s)) / 1000000
      else startupTime s)"
  by (simp del: of_nat_unat add: gyroReadingChanged_def fresh_def Let_def frames)

lemma gyro_rotationChanged:
  "rotationChanged (gyroReadingChanged predict (timestamp, x, y, z) s) =
     (if fresh (lastGyroTimestamp s) timestamp \<and> gyroId s \<noteq> ''''
         \<and> startupTime (gyroReadingChanged predict (timestamp, x, y, z) s) \<le> 0
      then rotationChanged s + 1 else rotationChanged s)"
  by (simp del: of_nat_unat
      add: gyroReadingChanged_def fresh_def Let_def frames cor_rotationChanged not_less)

lemma gyro_histories:
  "statePostHistory (gyroReadingChanged predict (timestamp, x, y, z) s) = statePostHistory s"
  "fresh (lastGyroTimestamp s) timestamp \<Longrightarrow>
     statePreHistory (gyroReadingChanged predict (timestamp, x, y, z) s) =
       statePre (filter_kf (gyroReadingChanged predict (timestamp, x, y, z) s))"
  "\<not> fresh (lastGyroTimestamp s) timestamp \<Longrightarrow>
     statePreHistory (gyroReadingChanged predict (timestamp, x, y, z) s) = statePreHistory s"
  by (simp_all del: of_nat_unat add: gyroReadingChanged_def fresh_def Let_def frames spq_fst)

lemma gyro_aligned:
  "fresh (lastGyroTimestamp s) timestamp \<Longrightarrow>
     0 \<le> dot4 (statePre (filter_kf (gyroReadingChanged predict (timestamp, x, y, z) s)))
              (statePreHistory s)"
  by (simp del: of_nat_unat add: gyroReadingChanged_def fresh_def Let_def frames spq_dot)

lemma gyro_output_startup:
  "0 < startupTime (gyroReadingChanged predict (timestamp, x, y, z) s) \<Longrightarrow>
     rotAxis (gyroReadingChanged predict (timestamp, x, y, z) s) = rotAxis s
     \<and> rotAngle (gyroReadingChanged predict (timestamp, x, y, z) s) = rotAngle s"
proof (cases "fresh (lastGyroTimestamp s) timestamp")
  case False
  then show ?thesis by (simp add: gyro_dropped)
next
  case True
  assume pos: "0 < startupTime (gyroReadingChanged predict (timestamp, x, y, z) s)"
  from True pos show ?thesis
    by (simp del: of_nat_unat add: gyroReadingChanged_def fresh_def Let_def frames
          cor_startup_pos split: if_splits)
qed


lemma gyro_first:
  "gyroReadingChanged predict (1, x, y, z) (IMU_init g a m r0) =
     (IMU_init g a m r0)\<lparr>lastGyroTimestamp := 1\<rparr>"
  by (simp add: gyro_dropped fresh_iff IMU_init_def)

lemma ekf_predict_statePre: "statePre (ekf_predict f p) = p"
  by (simp add: ekf_predict_def Let_def)

lemma cp_process:
  "statePost (filter_kf s) = (q0, q1, q2, q3) \<Longrightarrow> w_vec s = (wx, wy, wz) \<Longrightarrow>
     process (calculateProcess s) = normalizeQuat
            (q0 + 0.5 * wDeltaT s * (- q1 * wx - q2 * wy - q3 * wz),
             q1 + 0.5 * wDeltaT s * (q0 * wx - q3 * wy + q2 * wz),
             q2 + 0.5 * wDeltaT s * (q3 * wx + q0 * wy - q1 * wz),
             q3 + 0.5 * wDeltaT s * (- q2 * wx + q1 * wy + q0 * wz))"
  by (simp del: normalizeQuat.simps add: calculateProcess_def Let_def split_beta)

lemma stored_fields:
  "startupTime (gyro_stored (2000001, x, y, z) ((IMU_init g a m r0)\<lparr>lastGyroTimestamp := 1\<rparr>)) = - 1"
  "gyroId (gyro_stored (2000001, x, y, z) ((IMU_init g a m r0)\<lparr>lastGyroTimestamp := 1\<rparr>)) = g"
  "statePost (filter_kf (gyro_stored (2000001, x, y, z) ((IMU_init g a m r0)\<lparr>lastGyroTimestamp := 1\<rparr>)))
     = (1, 0, 0, 0)"
  "w_vec (gyro_stored (2000001, x, y, z) ((IMU_init g a m r0)\<lparr>lastGyroTimestamp := 1\<rparr>))
     = (qDegreesToRadians x, qDegreesToRadians y, qDegreesToRadians z)"
  "wDeltaT (gyro_stored (2000001, x, y, z) ((IMU_init g a m r0)\<lparr>lastGyroTimestamp := 1\<rparr>)) = 2"
  by (simp_all add: gyro_stored_def IMU_init_def Let_def)

lemma stored_process:
  "process (calculateProcess
      (gyro_stored (2000001, 240 / pi, 0, 0) ((IMU_init g a m r0)\<lparr>lastGyroTimestamp := 1\<rparr>)))
   = (3 / 5, 4 / 5, 0, 0)"
proof -
  define S where
    "S = gyro_stored (2000001, 240 / pi, 0, 0) ((IMU_init g a m r0)\<lparr>lastGyroTimestamp := 1\<rparr>)"
  have sp: "statePost (filter_kf S) = (1, 0, 0, 0)"
    and dt: "wDeltaT S = 2"
    unfolding S_def by (simp_all add: stored_fields)
  have wv: "w_vec S = (4 / 3, 0, 0)"
    unfolding S_def by (simp add: stored_fields qDegreesToRadians_def)
  show ?thesis
    unfolding S_def [symmetric]
    using cp_process [OF sp wv]
    by (simp del: normalizeQuat.simps add: dt normalize_1_43)
qed

subsection \<open>The accelerometer handler\<close>

lemma acc_dropped:
  "\<not> fresh (lastAccTimestamp s) timestamp \<Longrightarrow>
     accReadingChanged correct (timestamp, x, y, z) s = s\<lparr>lastAccTimestamp := timestamp\<rparr>"
  by (auto simp del: of_nat_unat simp add: accReadingChanged_def fresh_def)

lemma acc_last:
  "lastAccTimestamp (accReadingChanged correct (timestamp, x, y, z) s) = timestamp"
  by (simp add: accReadingChanged_def)

lemma acc_a_vec:
  "a_vec (accReadingChanged correct (timestamp, x, y, z) s) =
     (if fresh (lastAccTimestamp s) timestamp then (x, y, z) else a_vec s)"
  by (simp del: of_nat_unat add: accReadingChanged_def fresh_def Let_def frames)

lemma acc_startupTime:
  "startupTime (accReadingChanged correct (timestamp, x, y, z) s) = startupTime s"
  by (simp del: of_nat_unat add: accReadingChanged_def Let_def frames)

lemma acc_rotationChanged:
  "rotationChanged (accReadingChanged correct (timestamp, x, y, z) s) =
     (if fresh (lastAccTimestamp s) timestamp \<and> gyroId s \<noteq> '''' \<and> startupTime s \<le> 0
      then rotationChanged s + 1 else rotationChanged s)"
  by (simp del: of_nat_unat
      add: accReadingChanged_def fresh_def Let_def frames cor_rotationChanged not_less)

lemma acc_histories:
  "statePreHistory (accReadingChanged correct (timestamp, x, y, z) s) = statePreHistory s"
  "fresh (lastAccTimestamp s) timestamp \<Longrightarrow>
     statePostHistory (accReadingChanged correct (timestamp, x, y, z) s) =
       statePost (filter_kf (accReadingChanged correct (timestamp, x, y, z) s))"
  "\<not> fresh (lastAccTimestamp s) timestamp \<Longrightarrow>
     statePostHistory (accReadingChanged correct (timestamp, x, y, z) s) = statePostHistory s"
  by (simp_all del: of_nat_unat add: accReadingChanged_def fresh_def Let_def frames spq_fst)

lemma acc_aligned:
  "fresh (lastAccTimestamp s) timestamp \<Longrightarrow>
     0 \<le> dot4 (statePost (filter_kf (accReadingChanged correct (timestamp, x, y, z) s)))
              (statePostHistory s)"
  by (simp del: of_nat_unat add: accReadingChanged_def fresh_def Let_def frames spq_dot)

lemma acc_output_startup:
  "0 < startupTime s \<Longrightarrow>
     rotAxis (accReadingChanged correct (timestamp, x, y, z) s) = rotAxis s
     \<and> rotAngle (accReadingChanged correct (timestamp, x, y, z) s) = rotAngle s"
  by (simp del: of_nat_unat add: accReadingChanged_def Let_def frames cor_startup_pos)

subsection \<open>The magnetometer handler\<close>

lemma mag_dropped:
  "\<not> fresh (lastMagTimestamp s) timestamp \<Longrightarrow>
     magReadingChanged (timestamp, x, y, z) s = s\<lparr>lastMagTimestamp := timestamp\<rparr>"
  by (auto simp del: of_nat_unat simp add: magReadingChanged_def fresh_def)

lemma mag_accepted:
  "fresh (lastMagTimestamp s) timestamp \<Longrightarrow>
     magReadingChanged (timestamp, x, y, z) s =
       s\<lparr>magSilentCycles := 0,
         m_vec := (x * 1000000, y * 1000000, z * 1000000),
         m_norm := length3 (x * 1000000, y * 1000000, z * 1000000),
         magDataReady := True,
         lastMagTimestamp := timestamp\<rparr>"
  by (simp del: of_nat_unat add: magReadingChanged_def fresh_def Let_def)

lemma mag_last:
  "lastMagTimestamp (magReadingChanged (timestamp, x, y, z) s) = timestamp"
  by (simp add: magReadingChanged_def)

subsection \<open>Runs of samples\<close>

lemma first_samples_seen_eq:
  "first_samples_seen =
     (IMU_init ''gyro'' ''acc'' ''mag'' 0)
       \<lparr>lastGyroTimestamp := 1, lastAccTimestamp := 1, lastMagTimestamp := 1\<rparr>"
  by (simp add: first_samples_seen_def gyro_dropped acc_dropped mag_dropped fresh_iff IMU_init_def)

lemma first_samples_seen_fields:
  "lastGyroTimestamp first_samples_seen = 1"
  "lastAccTimestamp first_samples_seen = 1"
  "lastMagTimestamp first_samples_seen = 1"
  "startupTime first_samples_seen = 1"
  "gyroId first_samples_seen = ''gyro''"
  "accId first_samples_seen = ''acc''"
  "magId first_samples_seen = ''mag''"
  "rotationChanged first_samples_seen = 0"
  "magDataReady first_samples_seen = False"
  "m_vec first_samples_seen = (0, 0, 0)"
  by (simp_all add: first_samples_seen_eq IMU_init_def)

lemma deliver_pre_history:
  "\<not> (is_gyro e \<and> accepted e s) \<Longrightarrow>
     statePreHistory (deliver predict correct e s) = statePreHistory s"
proof (cases e)
  case (GyroSample r)
  assume "\<not> (is_gyro e \<and> accepted e s)"
  with GyroSample show ?thesis
    by (cases r) (simp add: gyro_histories)
next
  case (AccSample r)
  then show ?thesis by (cases r) (simp add: acc_histories)
next
  case (MagSample r)
  then show ?thesis by (simp add: mag_frame)
qed

lemma deliver_post_history:
  "\<not> (is_acc e \<and> accepted e s) \<Longrightarrow>
     statePostHistory (deliver predict correct e s) = statePostHistory s"
proof (cases e)
  case (GyroSample r)
  then show ?thesis by (cases r) (simp add: gyro_histories)
next
  case (AccSample r)
  assume "\<not> (is_acc e \<and> accepted e s)"
  with AccSample show ?thesis
    by (cases r) (simp add: acc_histories)
next
  case (MagSample r)
  then show ?thesis by (simp add: mag_frame)
qed

lemma run_pre_history:
  "none_accepted is_gyro predict correct es s \<Longrightarrow>
     statePreHistory (run predict correct es s) = statePreHistory s"
proof (induction es arbitrary: s)
  case Nil
  then show ?case by simp
next
  case (Cons e es)
  from Cons.prems have quiet: "\<not> (is_gyro e \<and> accepted e s)"
    and rest: "none_accepted is_gyro predict correct es (deliver predict correct e s)"
    by (simp_all split: if_splits)
  from Cons.IH [OF rest] deliver_pre_history [OF quiet] show ?case by simp
qed

lemma run_post_history:
  "none_accepted is_acc predict correct es s \<Longrightarrow>
     statePostHistory (run predict correct es s) = statePostHistory s"
proof (induction es arbitrary: s)
  case Nil
  then show ?case by simp
next
  case (Cons e es)
  from Cons.prems have quiet: "\<not> (is_acc e \<and> accepted e s)"
    and rest: "none_accepted is_acc predict correct es (deliver predict correct e s)"
    by (simp_all split: if_splits)
  from Cons.IH [OF rest] deliver_post_history [OF quiet] show ?case by simp
qed

lemma deliver_quiet:
  assumes "\<not> (is_gyro e \<and> accepted e s)" and "0 < startupTime s"
  shows "startupTime (deliver predict correct e s) = startupTime s
     \<and> rotAxis (deliver predict correct e s) = rotAxis s
     \<and> rotAngle (deliver predict correct e s) = rotAngle s
     \<and> rotationChanged (deliver predict correct e s) = rotationChanged s"
proof (cases e)
  case (GyroSample r)
  with assms show ?thesis
    by (cases r) (simp add: gyro_dropped)
next
  case (AccSample r)
  with assms acc_output_startup [of s correct] show ?thesis
    by (cases r) (simp add: acc_startupTime acc_rotationChanged)
next
  case (MagSample r)
  then show ?thesis by (simp add: mag_frame)
qed

lemma run_quiet:
  "none_accepted is_gyro predict correct es s \<Longrightarrow> 0 < startupTime s \<Longrightarrow>
     startupTime (run predict correct es s) = startupTime s
     \<and> rotAxis (run predict correct es s) = rotAxis s
     \<and> rotAngle (run predict correct es s) = rotAngle s
     \<and> rotationChanged (run predict correct es s) = rotationChanged s"
proof (induction es arbitrary: s)
  case Nil
  then show ?case by simp
next
  case (Cons e es)
  from Cons.prems have quiet: "\<not> (is_gyro e \<and> accepted e s)"
    and rest: "none_accepted is_gyro predict correct es (deliver predict correct e s)"
    by (simp_all split: if_splits)
  note d = deliver_quiet [OF quiet Cons.prems(2), of predict correct]
  from d Cons.prems(2) have "0 < startupTime (deliver predict correct e s)" by simp
  from Cons.IH [OF rest this] d show ?case by simp
qed

subsection \<open>What the process model relies on\<close>











section \<open>The claims\<close>

subsection \<open>Time steps\<close>

lemma in_order_difference:
  fixes timestamp t_last :: quint64
  assumes "t_last \<le> timestamp"
  shows "real (unat (timestamp - t_last)) = real (unat timestamp) - real (unat t_last)"
proof -
  from assms have le: "unat t_last \<le> unat timestamp"
    by (simp add: word_le_nat_alt)
  from assms have "unat (timestamp - t_last) = unat timestamp - unat t_last"
    by (rule unat_sub)
  with le show ?thesis
    by (simp del: of_nat_unat add: of_nat_diff)
qed

text \<open>
  Claim C1, as amended. For a gyro sample after the first, that is one that arrives when
  the stored gyro timestamp \<open>t_last\<close> is positive, and whose timestamp \<open>t\<close> is not
  smaller than \<open>t_last\<close>, the time step is \<open>(t - t_last) / 10\<^sup>6\<close> (not \<open>/ 10\<^sup>9\<close>): this is
  the value stored in \<open>wDeltaT\<close> and the value \<open>calculateProcess\<close> is called with. The
  accelerometer handler applies the same conversion in its test: for such a pair of
  timestamps it stores the reading exactly when \<open>(t - t_last) / 10\<^sup>6\<close> is positive.
  Nothing is stated here of a sample whose timestamp is smaller than the stored one.
\<close>

theorem delta_t_in_order_by_million:
  "(0 < lastGyroTimestamp s \<and> lastGyroTimestamp s \<le> timestamp \<longrightarrow>
      wDeltaT (gyroReadingChanged predict (timestamp, x, y, z) s) =
        (real (unat timestamp) - real (unat (lastGyroTimestamp s))) / 1000000
      \<and> wDeltaT (gyro_stored (timestamp, x, y, z) s) =
        (real (unat timestamp) - real (unat (lastGyroTimestamp s))) / 1000000)
   \<and> (0 < lastAccTimestamp s \<and> lastAccTimestamp s \<le> timestamp \<longrightarrow>
      a_vec (accReadingChanged correct (timestamp, x, y, z) s) =
        (if 0 < (real (unat timestamp) - real (unat (lastAccTimestamp s))) / 1000000
         then (x, y, z) else a_vec s))"
proof -
  have g: "wDeltaT (gyroReadingChanged predict (timestamp, x, y, z) s) =
        (real (unat timestamp) - real (unat (lastGyroTimestamp s))) / 1000000
      \<and> wDeltaT (gyro_stored (timestamp, x, y, z) s) =
        (real (unat timestamp) - real (unat (lastGyroTimestamp s))) / 1000000"
    if "0 < lastGyroTimestamp s \<and> lastGyroTimestamp s \<le> timestamp"
  proof -
    from that have pos: "0 < lastGyroTimestamp s" and le: "lastGyroTimestamp s \<le> timestamp"
      by simp_all
    have "wDeltaT (gyroReadingChanged predict (timestamp, x, y, z) s) =
        real (unat (timestamp - lastGyroTimestamp s)) / 1000000"
      using gyro_wDeltaT [of predict timestamp x y z s] pos by simp
    moreover have "wDeltaT (gyro_stored (timestamp, x, y, z) s) =
        real (unat (timestamp - lastGyroTimestamp s)) / 1000000"
      by (simp del: of_nat_unat add: gyro_stored_def Let_def)
    ultimately show ?thesis
      unfolding in_order_difference [OF le] by simp
  qed
  have a: "a_vec (accReadingChanged correct (timestamp, x, y, z) s) =
        (if 0 < (real (unat timestamp) - real (unat (lastAccTimestamp s))) / 1000000
         then (x, y, z) else a_vec s)"
    if "0 < lastAccTimestamp s \<and> lastAccTimestamp s \<le> timestamp"
  proof -
    from that have pos: "0 < lastAccTimestamp s" and le: "lastAccTimestamp s \<le> timestamp"
      by simp_all
    have "a_vec (accReadingChanged correct (timestamp, x, y, z) s) =
        (if 0 < real (unat (timestamp - lastAccTimestamp s)) / 1000000
         then (x, y, z) else a_vec s)"
      using acc_a_vec [of correct timestamp x y z s] pos
      by (simp del: of_nat_unat add: fresh_def)
    then show ?thesis
      unfolding in_order_difference [OF le] by simp
  qed
  show ?thesis
    using g a by blast
qed

theorem delta_t_in_order_by_million_witness:
  "0 < lastGyroTimestamp first_samples_seen
   \<and> lastGyroTimestamp first_samples_seen \<le> 2000001
   \<and> wDeltaT (gyroReadingChanged ekf_predict (2000001, 0, 0, 0) first_samples_seen) = 2
   \<and> wDeltaT (gyro_stored (2000001, 0, 0, 0) first_samples_seen) = 2
   \<and> 0 < lastAccTimestamp first_samples_seen
   \<and> lastAccTimestamp first_samples_seen \<le> 5
   \<and> a_vec (accReadingChanged ekf_correct (5, 1, 2, 3) first_samples_seen) = (1, 2, 3)
   \<and> lastAccTimestamp first_samples_seen \<le> 1
   \<and> a_vec (accReadingChanged ekf_correct (1, 1, 2, 3) first_samples_seen)
       = a_vec first_samples_seen"
proof -
  have h1: "0 < lastGyroTimestamp first_samples_seen"
    and h2: "lastGyroTimestamp first_samples_seen \<le> 2000001"
    and h3: "0 < lastAccTimestamp first_samples_seen"
    and h4: "lastAccTimestamp first_samples_seen \<le> 5"
    and h5: "lastAccTimestamp first_samples_seen \<le> 1"
    by (simp_all add: first_samples_seen_fields)
  note t1 = delta_t_in_order_by_million
      [of first_samples_seen 2000001 ekf_predict 0 0 0 ekf_correct]
  note t2 = delta_t_in_order_by_million
      [of first_samples_seen 5 ekf_predict 1 2 3 ekf_correct]
  note t3 = delta_t_in_order_by_million
      [of first_samples_seen 1 ekf_predict 1 2 3 ekf_correct]
  from t1 h1 h2
  have a: "wDeltaT (gyroReadingChanged ekf_predict (2000001, 0, 0, 0) first_samples_seen) = 2"
    and b: "wDeltaT (gyro_stored (2000001, 0, 0, 0) first_samples_seen) = 2"
    by (simp_all add: first_samples_seen_fields)
  from t2 h3 h4
  have c: "a_vec (accReadingChanged ekf_correct (5, 1, 2, 3) first_samples_seen) = (1, 2, 3)"
    by (simp add: first_samples_seen_fields)
  from t3 h3 h5
  have d: "a_vec (accReadingChanged ekf_correct (1, 1, 2, 3) first_samples_seen)
       = a_vec first_samples_seen"
    by (simp add: first_samples_seen_fields)
  show ?thesis
    using h1 h2 a b h3 h4 c h5 d by blast
qed

text \<open>
  Claim C1 as stated fails: two gyro samples whose timestamps differ by \<open>10\<^sup>9\<close> give the
  time step 1000, where the division by \<open>10\<^sup>9\<close> of the claim gives 1.
\<close>

theorem delta_t_not_by_billion:
  "wDeltaT (run ekf_predict ekf_correct
      [GyroSample (1, 0, 0, 0), GyroSample (1000000001, 0, 0, 0)]
      (IMU_init ''gyro'' ''acc'' ''mag'' 0)) = 1000
   \<and> (real (unat (1000000001 :: quint64)) - real (unat (1 :: quint64))) / 1000000000 = 1"
  by (simp add: gyro_first gyro_wDeltaT)

subsection \<open>The published rotation\<close>

text \<open>
  Claim C2 fails on the code. Two gyro samples two seconds apart, the second with angular
  velocity \<open>240 / \<pi>\<close> degrees per second about x, end the startup and leave the unit
  posterior \<open>(3/5, 4/5, 0, 0)\<close>. The published axis is \<open>(16/25, 0, 0)\<close>, of length
  \<open>16/25\<close>: the vector part is multiplied by the sine of the half angle where a unit axis
  needs the division (for every unit posterior the published axis has the length
  \<open>q1\<^sup>2 + q2\<^sup>2 + q3\<^sup>2\<close>, see \<open>published_axis_length\<close>). The angle is in degrees, as the
  claim says.
\<close>

theorem published_axis_not_unit:
  "getRotAxis (run ekf_predict ekf_correct
      [GyroSample (1, 0, 0, 0), GyroSample (2000001, 240 / pi, 0, 0)]
      (IMU_init ''gyro'' ''acc'' ''mag'' 0)) = (16 / 25, 0, 0)
   \<and> getRotAngle (run ekf_predict ekf_correct
      [GyroSample (1, 0, 0, 0), GyroSample (2000001, 240 / pi, 0, 0)]
      (IMU_init ''gyro'' ''acc'' ''mag'' 0)) = qRadiansToDegrees (2 * arctan (4 / 3))
   \<and> statePost (filter_kf (run ekf_predict ekf_correct
      [GyroSample (1, 0, 0, 0), GyroSample (2000001, 240 / pi, 0, 0)]
      (IMU_init ''gyro'' ''acc'' ''mag'' 0))) = (3 / 5, 4 / 5, 0, 0)
   \<and> length3 (16 / 25, 0, 0) = 16 / 25"
proof -
  let ?s0 = "(IMU_init ''gyro'' ''acc'' ''mag'' 0)\<lparr>lastGyroTimestamp := 1\<rparr>"
  let ?s3 = "calculateProcess (gyro_stored (2000001, 240 / pi, 0, 0) ?s0)"
  let ?X = "?s3\<lparr>statePreHistory := (3 / 5, 4 / 5, 0, 0),
      filter_kf := (ekf_predict (filter_kf ?s3) (process ?s3))
        \<lparr>statePre := (3 / 5, 4 / 5, 0, 0), statePost := (3 / 5, 4 / 5, 0, 0)\<rparr>\<rparr>"
  have fr: "fresh (lastGyroTimestamp ?s0) 2000001"
    by (simp add: fresh_iff)
  have hist: "statePreHistory ?s0 = (1, 0, 0, 0)"
    by (simp add: IMU_init_def)
  have q: "snd (shortestPathQuat (statePreHistory ?s0)
             (normalizeQuat (statePre (ekf_predict (filter_kf ?s3) (process ?s3)))))
           = (3 / 5, 4 / 5, 0, 0)"
    unfolding ekf_predict_statePre stored_process hist normalize_35_45 by (simp add: Let_def)
  have step: "gyroReadingChanged ekf_predict (2000001, 240 / pi, 0, 0) ?s0
      = (calculateOutputRotation ?X)\<lparr>lastGyroTimestamp := 2000001\<rparr>"
    unfolding gyro_accepted [OF fr] Let_def q ..
  have run_eq: "run ekf_predict ekf_correct
      [GyroSample (1, 0, 0, 0), GyroSample (2000001, 240 / pi, 0, 0)]
      (IMU_init ''gyro'' ''acc'' ''mag'' 0)
      = (calculateOutputRotation ?X)\<lparr>lastGyroTimestamp := 2000001\<rparr>"
    unfolding run.simps deliver.simps gyro_first step ..
  have post: "statePost (filter_kf ?X) = (3 / 5, 4 / 5, 0, 0)"
    by simp
  have gid: "gyroId ?X \<noteq> ''''"
    by (simp add: cp_frame stored_fields)
  have st: "startupTime ?X \<le> 0"
    by (simp add: cp_frame stored_fields)
  have "sqrt (256 / 625) = (16 / 25 :: real)"
    by (rule real_sqrt_unique) (simp_all add: power2_eq_square)
  then have len: "length3 (16 / 25, 0, 0) = 16 / 25"
    by simp
  have ax: "rotAxis ((calculateOutputRotation ?X)\<lparr>lastGyroTimestamp := 2000001\<rparr>)
      = (16 / 25, 0, 0)"
    using pub_35_45(1) [OF post gid st] by simp
  have an: "rotAngle ((calculateOutputRotation ?X)\<lparr>lastGyroTimestamp := 2000001\<rparr>)
      = qRadiansToDegrees (2 * arctan (4 / 3))"
    using pub_35_45(2) [OF post gid st] by simp
  have po: "statePost (filter_kf ((calculateOutputRotation ?X)\<lparr>lastGyroTimestamp := 2000001\<rparr>))
      = (3 / 5, 4 / 5, 0, 0)"
    by (simp add: cor_frame)
  show ?thesis
    unfolding run_eq getRotAxis_def getRotAngle_def
    using ax an po len by blast
qed

subsection \<open>Samples that are dropped\<close>

text \<open>
  A gyro sample with the timestamp of the previous one is dropped: the filter, the
  countdown and the published rotation stay as they are.
\<close>

lemma same_timestamp_dropped:
  "filter_kf (gyroReadingChanged predict (lastGyroTimestamp s, x, y, z) s) = filter_kf s
   \<and> startupTime (gyroReadingChanged predict (lastGyroTimestamp s, x, y, z) s) = startupTime s
   \<and> rotAxis (gyroReadingChanged predict (lastGyroTimestamp s, x, y, z) s) = rotAxis s
   \<and> rotAngle (gyroReadingChanged predict (lastGyroTimestamp s, x, y, z) s) = rotAngle s
   \<and> rotationChanged (gyroReadingChanged predict (lastGyroTimestamp s, x, y, z) s)
       = rotationChanged s"
  by (simp add: gyro_dropped fresh_iff)

text \<open>
  A gyro sample with a timestamp smaller than the stored one passes the test of the
  handler: the time step is positive, and a positive countdown is decremented.
\<close>

lemma earlier_timestamp_fresh: "timestamp < t_last \<Longrightarrow> fresh t_last timestamp"
  unfolding fresh_iff
  by (auto simp: word_gt_0 [symmetric] dest: order.strict_trans1 [OF word_zero_le])

lemma earlier_timestamp_processed:
  assumes "timestamp < lastGyroTimestamp s"
  shows "0 < wDeltaT (gyroReadingChanged predict (timestamp, x, y, z) s)"
    and "0 < startupTime s \<Longrightarrow>
      startupTime (gyroReadingChanged predict (timestamp, x, y, z) s) < startupTime s"
proof -
  have fr: "fresh (lastGyroTimestamp s) timestamp"
    using assms by (rule earlier_timestamp_fresh)
  then have pos: "0 < lastGyroTimestamp s"
    and dt: "0 < real (unat (timestamp - lastGyroTimestamp s)) / 1000000"
    unfolding fresh_def by simp_all
  show "0 < wDeltaT (gyroReadingChanged predict (timestamp, x, y, z) s)"
    unfolding gyro_wDeltaT using pos dt by simp
  show "startupTime (gyroReadingChanged predict (timestamp, x, y, z) s) < startupTime s"
    if "0 < startupTime s"
    unfolding gyro_startupTime using fr that dt by simp
qed

text \<open>
  Claim C3 fails on the code for a timestamp smaller than the previous one. After a first
  gyro sample at 2000 the countdown is 1 and nothing has been emitted; a second sample
  at 1000 is processed with the wrapped difference \<open>2\<^sup>6\<^sup>4 - 1000\<close> as its time step: the
  countdown drops below zero and a rotation is emitted.
\<close>

theorem earlier_timestamp_not_dropped:
  "startupTime (gyroReadingChanged ekf_predict (2000, 0, 0, 0) (IMU_init ''gyro'' ''acc'' ''mag'' 0)) = 1
   \<and> rotationChanged
        (gyroReadingChanged ekf_predict (2000, 0, 0, 0) (IMU_init ''gyro'' ''acc'' ''mag'' 0)) = 0
   \<and> wDeltaT (gyroReadingChanged ekf_predict (1000, 0, 0, 0)
        (gyroReadingChanged ekf_predict (2000, 0, 0, 0) (IMU_init ''gyro'' ''acc'' ''mag'' 0)))
      = 18446744073709550616 / 1000000
   \<and> startupTime (gyroReadingChanged ekf_predict (1000, 0, 0, 0)
        (gyroReadingChanged ekf_predict (2000, 0, 0, 0) (IMU_init ''gyro'' ''acc'' ''mag'' 0)))
      = 1 - 18446744073709550616 / 1000000
   \<and> rotationChanged (gyroReadingChanged ekf_predict (1000, 0, 0, 0)
        (gyroReadingChanged ekf_predict (2000, 0, 0, 0) (IMU_init ''gyro'' ''acc'' ''mag'' 0))) = 1"
proof -
  have first: "gyroReadingChanged ekf_predict (2000, 0, 0, 0) (IMU_init ''gyro'' ''acc'' ''mag'' 0)
      = (IMU_init ''gyro'' ''acc'' ''mag'' 0)\<lparr>lastGyroTimestamp := 2000\<rparr>"
    by (simp add: gyro_dropped fresh_iff IMU_init_def)
  have fr: "fresh (2000 :: quint64) 1000"
    by (simp add: fresh_iff)
  show ?thesis
    unfolding first
    by (simp add: gyro_wDeltaT gyro_startupTime gyro_rotationChanged fr IMU_init_def)
qed

subsection \<open>Before the first gyro sample is processed\<close>

text \<open>
  In a run from the constructed estimator in which no gyro sample is processed (gyro
  samples that are dropped may occur, and any accelerometer and magnetometer samples),
  the countdown stays at 1: no publish emits or writes the output. The rotation axis is
  the zero vector of the constructor, and the rotation angle is what the storage of
  \<^verbatim>\<open>rotAngle\<close> held at construction.
\<close>

lemma no_gyro_output_as_constructed:
  assumes "none_accepted is_gyro predict correct es (IMU_init gid aid mid content)"
  shows "getRotAxis (run predict correct es (IMU_init gid aid mid content)) = (0, 0, 0)"
    and "getRotAngle (run predict correct es (IMU_init gid aid mid content)) = content"
    and "rotationChanged (run predict correct es (IMU_init gid aid mid content)) = 0"
proof -
  have "0 < startupTime (IMU_init gid aid mid content)"
    by (simp add: IMU_init_def)
  from run_quiet [OF assms this]
  show "getRotAxis (run predict correct es (IMU_init gid aid mid content)) = (0, 0, 0)"
    and "getRotAngle (run predict correct es (IMU_init gid aid mid content)) = content"
    and "rotationChanged (run predict correct es (IMU_init gid aid mid content)) = 0"
    by (simp_all add: getRotAxis_def getRotAngle_def IMU_init_def)
qed

text \<open>
  Claim C4 fails on the code for the angle. The constructor gives \<^verbatim>\<open>rotAngle\<close> no value,
  so an estimator built in storage that held 12345.678 there returns 12345.678 from
  \<open>getRotAngle\<close>, not 0: at once after construction, and after a run in which no gyro
  sample is processed (the only gyro samples are the first of the stream and one that
  repeats its timestamp). The axis is \<open>(0, 0, 0)\<close> and nothing has been emitted, as the
  claim says.
\<close>

theorem rotation_angle_not_initialised:
  "getRotAngle (IMU_init ''gyro'' ''acc'' ''mag'' 12345.678) = 12345.678
   \<and> none_accepted is_gyro ekf_predict ekf_correct
     [AccSample (1, 0, 0, 9.81), GyroSample (7, 1, 2, 3), AccSample (2, 0, 0, 9.81),
      MagSample (3, 0, 0, 0), GyroSample (7, 1, 2, 3)]
     (IMU_init ''gyro'' ''acc'' ''mag'' 12345.678)
   \<and> getRotAngle (run ekf_predict ekf_correct
     [AccSample (1, 0, 0, 9.81), GyroSample (7, 1, 2, 3), AccSample (2, 0, 0, 9.81),
      MagSample (3, 0, 0, 0), GyroSample (7, 1, 2, 3)]
     (IMU_init ''gyro'' ''acc'' ''mag'' 12345.678)) = 12345.678
   \<and> getRotAxis (run ekf_predict ekf_correct
     [AccSample (1, 0, 0, 9.81), GyroSample (7, 1, 2, 3), AccSample (2, 0, 0, 9.81),
      MagSample (3, 0, 0, 0), GyroSample (7, 1, 2, 3)]
     (IMU_init ''gyro'' ''acc'' ''mag'' 12345.678)) = (0, 0, 0)
   \<and> rotationChanged (run ekf_predict ekf_correct
     [AccSample (1, 0, 0, 9.81), GyroSample (7, 1, 2, 3), AccSample (2, 0, 0, 9.81),
      MagSample (3, 0, 0, 0), GyroSample (7, 1, 2, 3)]
     (IMU_init ''gyro'' ''acc'' ''mag'' 12345.678)) = 0"
proof -
  let ?s = "IMU_init ''gyro'' ''acc'' ''mag'' 12345.678"
  let ?es = "[AccSample (1, 0, 0, 9.81), GyroSample (7, 1, 2, 3), AccSample (2, 0, 0, 9.81),
      MagSample (3, 0, 0, 0), GyroSample (7, 1, 2, 3)]"
  have init: "lastGyroTimestamp (IMU_init g a m c) = 0" for g a m c
    by (simp add: IMU_init_def)
  have now: "getRotAngle ?s = 12345.678"
    by (simp add: getRotAngle_def IMU_init_def)
  have quiet: "none_accepted is_gyro ekf_predict ekf_correct ?es ?s"
    by (simp add: fresh_iff acc_frame mag_frame gyro_last init)
  note out = no_gyro_output_as_constructed [OF quiet]
  show ?thesis
    using now quiet out by blast
qed

subsection \<open>The process model\<close>



subsection \<open>Quaternion utilities\<close>

text \<open>
  Claim C6. For every 4-vector \<open>q\<close>, \<open>normalizeQuat\<close> divides each component by
  \<open>n = sqrt (q0\<^sup>2 + q1\<^sup>2 + q2\<^sup>2 + q3\<^sup>2)\<close> when \<open>n\<close> is greater than \<open>EPSILON\<close>, and the result
  then has norm 1 (over the reals); otherwise all four components are set to 1.
\<close>

theorem normalizeQuat_unit_or_ones:
  "normalizeQuat (q0, q1, q2, q3) =
     (if EPSILON < sqrt (q0\<^sup>2 + q1\<^sup>2 + q2\<^sup>2 + q3\<^sup>2)
      then (q0 / sqrt (q0\<^sup>2 + q1\<^sup>2 + q2\<^sup>2 + q3\<^sup>2), q1 / sqrt (q0\<^sup>2 + q1\<^sup>2 + q2\<^sup>2 + q3\<^sup>2),
            q2 / sqrt (q0\<^sup>2 + q1\<^sup>2 + q2\<^sup>2 + q3\<^sup>2), q3 / sqrt (q0\<^sup>2 + q1\<^sup>2 + q2\<^sup>2 + q3\<^sup>2))
      else (1, 1, 1, 1))
   \<and> (EPSILON < sqrt (q0\<^sup>2 + q1\<^sup>2 + q2\<^sup>2 + q3\<^sup>2)
        \<longrightarrow> norm4 (normalizeQuat (q0, q1, q2, q3)) = 1)"
proof -
  define n where "n = sqrt (q0\<^sup>2 + q1\<^sup>2 + q2\<^sup>2 + q3\<^sup>2)"
  have eq: "sqrt (q0 * q0 + q1 * q1 + q2 * q2 + q3 * q3) = n"
    by (simp add: n_def power2_eq_square)
  have first: "normalizeQuat (q0, q1, q2, q3) =
      (if EPSILON < n then (q0 / n, q1 / n, q2 / n, q3 / n) else (1, 1, 1, 1))"
    by (simp add: eq)
  have second: "norm4 (normalizeQuat (q0, q1, q2, q3)) = 1" if "EPSILON < n"
  proof -
    have "0 < n" using that EPSILON_pos by linarith
    then show ?thesis
      using that first norm4_divide [of n q0 q1 q2 q3] n_def by simp
  qed
  show ?thesis
    using first second unfolding n_def by blast
qed

theorem normalizeQuat_unit_or_ones_witness:
  "EPSILON < sqrt (2\<^sup>2 + 0\<^sup>2 + 0\<^sup>2 + 0\<^sup>2)
   \<and> normalizeQuat (2, 0, 0, 0) = (1, 0, 0, 0)
   \<and> norm4 (normalizeQuat (2, 0, 0, 0)) = 1
   \<and> normalizeQuat (0, 0, 0, 0) = (1, 1, 1, 1)"
proof -
  have s: "sqrt ((2::real)\<^sup>2 + 0\<^sup>2 + 0\<^sup>2 + 0\<^sup>2) = 2" by simp
  have e: "EPSILON < sqrt (2\<^sup>2 + 0\<^sup>2 + 0\<^sup>2 + 0\<^sup>2)"
    using EPSILON_lt_one unfolding s by linarith
  have z: "\<not> EPSILON < sqrt (0\<^sup>2 + 0\<^sup>2 + 0\<^sup>2 + 0\<^sup>2)"
    using EPSILON_pos by simp
  from normalizeQuat_unit_or_ones [of 2 0 0 0] e
  have a: "normalizeQuat (2, 0, 0, 0) = (1, 0, 0, 0)"
    and b: "norm4 (normalizeQuat (2, 0, 0, 0)) = 1"
    by (simp_all only: s if_True) simp_all
  from normalizeQuat_unit_or_ones [of 0 0 0 0] z
  have c: "normalizeQuat (0, 0, 0, 0) = (1, 1, 1, 1)"
    by simp
  show ?thesis using e a b c by blast
qed

text \<open>
  Claim C7. After the sign alignment the quaternion has a non-negative dot product with
  the history held before the step, it is the given quaternion or its negation, and
  the history equals it. Consequently the prior left by an accepted gyro sample has a
  non-negative dot product with the prior left by the accepted gyro sample before it,
  whatever samples are dropped or belong to other streams in between; likewise for the
  posteriors left by two consecutive accepted accelerometer samples.
\<close>

theorem sign_continuity:
  "0 \<le> dot4 (snd (shortestPathQuat p q)) p
   \<and> (snd (shortestPathQuat p q) = q \<or> snd (shortestPathQuat p q) = neg4 q)
   \<and> fst (shortestPathQuat p q) = snd (shortestPathQuat p q)
   \<and> (fresh (lastGyroTimestamp s) t1
        \<and> none_accepted is_gyro predict correct es
             (gyroReadingChanged predict (t1, x1, y1, z1) s)
        \<and> fresh (lastGyroTimestamp
                   (run predict correct es (gyroReadingChanged predict (t1, x1, y1, z1) s))) t2
      \<longrightarrow> 0 \<le> dot4
            (statePre (filter_kf (gyroReadingChanged predict (t2, x2, y2, z2)
               (run predict correct es (gyroReadingChanged predict (t1, x1, y1, z1) s)))))
            (statePre (filter_kf (gyroReadingChanged predict (t1, x1, y1, z1) s))))
   \<and> (fresh (lastAccTimestamp s) t1
        \<and> none_accepted is_acc predict correct es
             (accReadingChanged correct (t1, x1, y1, z1) s)
        \<and> fresh (lastAccTimestamp
                   (run predict correct es (accReadingChanged correct (t1, x1, y1, z1) s))) t2
      \<longrightarrow> 0 \<le> dot4
            (statePost (filter_kf (accReadingChanged correct (t2, x2, y2, z2)
               (run predict correct es (accReadingChanged correct (t1, x1, y1, z1) s)))))
            (statePost (filter_kf (accReadingChanged correct (t1, x1, y1, z1) s))))"
proof -
  have prior: "0 \<le> dot4
      (statePre (filter_kf (gyroReadingChanged predict (t2, x2, y2, z2)
         (run predict correct es (gyroReadingChanged predict (t1, x1, y1, z1) s)))))
      (statePre (filter_kf (gyroReadingChanged predict (t1, x1, y1, z1) s)))"
    if a: "fresh (lastGyroTimestamp s) t1"
      and b: "none_accepted is_gyro predict correct es
                (gyroReadingChanged predict (t1, x1, y1, z1) s)"
      and c: "fresh (lastGyroTimestamp
                (run predict correct es (gyroReadingChanged predict (t1, x1, y1, z1) s))) t2"
  proof -
    have "statePreHistory (run predict correct es (gyroReadingChanged predict (t1, x1, y1, z1) s))
          = statePre (filter_kf (gyroReadingChanged predict (t1, x1, y1, z1) s))"
      using run_pre_history [OF b] gyro_histories(2) [OF a] by simp
    with gyro_aligned [OF c] show ?thesis by simp
  qed
  have posterior: "0 \<le> dot4
      (statePost (filter_kf (accReadingChanged correct (t2, x2, y2, z2)
         (run predict correct es (accReadingChanged correct (t1, x1, y1, z1) s)))))
      (statePost (filter_kf (accReadingChanged correct (t1, x1, y1, z1) s)))"
    if a: "fresh (lastAccTimestamp s) t1"
      and b: "none_accepted is_acc predict correct es
                (accReadingChanged correct (t1, x1, y1, z1) s)"
      and c: "fresh (lastAccTimestamp
                (run predict correct es (accReadingChanged correct (t1, x1, y1, z1) s))) t2"
  proof -
    have "statePostHistory (run predict correct es (accReadingChanged correct (t1, x1, y1, z1) s))
          = statePost (filter_kf (accReadingChanged correct (t1, x1, y1, z1) s))"
      using run_post_history [OF b] acc_histories(2) [OF a] by simp
    with acc_aligned [OF c] show ?thesis by simp
  qed
  show ?thesis
    using spq_dot [of p q] spq_sign [of p q] spq_fst [of p q] prior posterior
    by blast
qed

theorem sign_continuity_witness:
  "snd (shortestPathQuat (1, 0, 0, 0) (- 1, 0, 0, 0)) = (1, 0, 0, 0)
   \<and> fresh (lastGyroTimestamp first_samples_seen) 2
   \<and> none_accepted is_gyro ekf_predict ekf_correct [MagSample (7, 0, 0, 0), GyroSample (2, 5, 0, 0)]
        (gyroReadingChanged ekf_predict (2, 90, 0, 0) first_samples_seen)
   \<and> fresh (lastGyroTimestamp
        (run ekf_predict ekf_correct [MagSample (7, 0, 0, 0), GyroSample (2, 5, 0, 0)]
           (gyroReadingChanged ekf_predict (2, 90, 0, 0) first_samples_seen))) 3
   \<and> 0 \<le> dot4
        (statePre (filter_kf (gyroReadingChanged ekf_predict (3, 90, 0, 0)
           (run ekf_predict ekf_correct [MagSample (7, 0, 0, 0), GyroSample (2, 5, 0, 0)]
              (gyroReadingChanged ekf_predict (2, 90, 0, 0) first_samples_seen)))))
        (statePre (filter_kf (gyroReadingChanged ekf_predict (2, 90, 0, 0) first_samples_seen)))
   \<and> fresh (lastAccTimestamp first_samples_seen) 2
   \<and> none_accepted is_acc ekf_predict ekf_correct [MagSample (7, 0, 0, 0), GyroSample (2, 5, 0, 0)]
        (accReadingChanged ekf_correct (2, 0, 0, 9.81) first_samples_seen)
   \<and> fresh (lastAccTimestamp
        (run ekf_predict ekf_correct [MagSample (7, 0, 0, 0), GyroSample (2, 5, 0, 0)]
           (accReadingChanged ekf_correct (2, 0, 0, 9.81) first_samples_seen))) 3
   \<and> 0 \<le> dot4
        (statePost (filter_kf (accReadingChanged ekf_correct (3, 0, 0, 9.81)
           (run ekf_predict ekf_correct [MagSample (7, 0, 0, 0), GyroSample (2, 5, 0, 0)]
              (accReadingChanged ekf_correct (2, 0, 0, 9.81) first_samples_seen)))))
        (statePost (filter_kf (accReadingChanged ekf_correct (2, 0, 0, 9.81) first_samples_seen)))"
proof -
  let ?es = "[MagSample (7, 0, 0, 0), GyroSample (2, 5, 0, 0)]"
  have flip: "snd (shortestPathQuat (1, 0, 0, 0) (- 1, 0, 0, 0)) = (1, 0, 0, 0)"
    by (simp add: Let_def)
  have g1: "fresh (lastGyroTimestamp first_samples_seen) 2"
    by (simp add: first_samples_seen_fields fresh_iff)
  have g2: "none_accepted is_gyro ekf_predict ekf_correct ?es
        (gyroReadingChanged ekf_predict (2, 90, 0, 0) first_samples_seen)"
    by (simp add: fresh_iff mag_frame gyro_last)
  have g3: "fresh (lastGyroTimestamp
        (run ekf_predict ekf_correct ?es
           (gyroReadingChanged ekf_predict (2, 90, 0, 0) first_samples_seen))) 3"
    by (simp add: fresh_iff gyro_last)
  have a1: "fresh (lastAccTimestamp first_samples_seen) 2"
    by (simp add: first_samples_seen_fields fresh_iff)
  have a2: "none_accepted is_acc ekf_predict ekf_correct ?es
        (accReadingChanged ekf_correct (2, 0, 0, 9.81) first_samples_seen)"
    by simp
  have a3: "fresh (lastAccTimestamp
        (run ekf_predict ekf_correct ?es
           (accReadingChanged ekf_correct (2, 0, 0, 9.81) first_samples_seen))) 3"
    by (simp add: fresh_iff gyro_frame mag_frame acc_last)
  note g = sign_continuity [of "(1, 0, 0, 0)" "(- 1, 0, 0, 0)" first_samples_seen 2
      ekf_predict ekf_correct ?es 90 0 0 3 90 0 0]
  note a = sign_continuity [of "(1, 0, 0, 0)" "(- 1, 0, 0, 0)" first_samples_seen 2
      ekf_predict ekf_correct ?es 0 0 "9.81" 3 0 0 "9.81"]
  from g g1 g2 g3 have gyro: "0 \<le> dot4
        (statePre (filter_kf (gyroReadingChanged ekf_predict (3, 90, 0, 0)
           (run ekf_predict ekf_correct ?es
              (gyroReadingChanged ekf_predict (2, 90, 0, 0) first_samples_seen)))))
        (statePre (filter_kf (gyroReadingChanged ekf_predict (2, 90, 0, 0) first_samples_seen)))"
    by blast
  from a a1 a2 a3 have acc: "0 \<le> dot4
        (statePost (filter_kf (accReadingChanged ekf_correct (3, 0, 0, 9.81)
           (run ekf_predict ekf_correct ?es
              (accReadingChanged ekf_correct (2, 0, 0, 9.81) first_samples_seen)))))
        (statePost (filter_kf (accReadingChanged ekf_correct (2, 0, 0, 9.81) first_samples_seen)))"
    by blast
  show ?thesis
    using flip g1 g2 g3 gyro a1 a2 a3 acc by blast
qed

subsection \<open>The magnetometer handler\<close>




subsection \<open>The startup phase\<close>

text \<open>
  Claim C9. While the countdown is positive a publish emits nothing and leaves the
  rotation axis and angle alone, and so does a gyro sample that leaves the countdown
  positive and an accelerometer sample that finds it positive; the publish still does
  the bookkeeping: with a gyroscope open (the publish returns at once without one, as
  section 4.5 of the specification says) it increments the gyro counter and the counter
  of each other stream that is open. Once the countdown is zero or below, a publish with
  a gyroscope open emits: so does the gyro sample that takes the countdown there, and
  an accepted accelerometer sample after it.
\<close>

theorem startup_suppresses_output:
  "(0 < startupTime s \<longrightarrow>
      rotationChanged (calculateOutputRotation s) = rotationChanged s
      \<and> rotAxis (calculateOutputRotation s) = rotAxis s
      \<and> rotAngle (calculateOutputRotation s) = rotAngle s
      \<and> gyroSilentCycles (calculateOutputRotation s) =
          (if gyroId s = '''' then gyroSilentCycles s else gyroSilentCycles s + 1)
      \<and> accSilentCycles (calculateOutputRotation s) =
          (if gyroId s = '''' \<or> accId s = '''' then accSilentCycles s else accSilentCycles s + 1)
      \<and> magSilentCycles (calculateOutputRotation s) =
          (if gyroId s = '''' \<or> magId s = '''' then magSilentCycles s else magSilentCycles s + 1))
   \<and> (startupTime s \<le> 0 \<and> gyroId s \<noteq> '''' \<longrightarrow>
      rotationChanged (calculateOutputRotation s) = rotationChanged s + 1)
   \<and> (0 < startupTime (gyroReadingChanged predict (timestamp, x, y, z) s) \<longrightarrow>
      rotationChanged (gyroReadingChanged predict (timestamp, x, y, z) s) = rotationChanged s
      \<and> rotAxis (gyroReadingChanged predict (timestamp, x, y, z) s) = rotAxis s
      \<and> rotAngle (gyroReadingChanged predict (timestamp, x, y, z) s) = rotAngle s)
   \<and> (0 < startupTime s \<longrightarrow>
      rotationChanged (accReadingChanged correct (timestamp, x, y, z) s) = rotationChanged s
      \<and> rotAxis (accReadingChanged correct (timestamp, x, y, z) s) = rotAxis s
      \<and> rotAngle (accReadingChanged correct (timestamp, x, y, z) s) = rotAngle s)
   \<and> (fresh (lastGyroTimestamp s) timestamp \<and> gyroId s \<noteq> ''''
        \<and> startupTime (gyroReadingChanged predict (timestamp, x, y, z) s) \<le> 0 \<longrightarrow>
      rotationChanged (gyroReadingChanged predict (timestamp, x, y, z) s) = rotationChanged s + 1)
   \<and> (fresh (lastAccTimestamp s) timestamp \<and> gyroId s \<noteq> '''' \<and> startupTime s \<le> 0 \<longrightarrow>
      rotationChanged (accReadingChanged correct (timestamp, x, y, z) s) = rotationChanged s + 1)"
proof -
  have pub: "rotationChanged (calculateOutputRotation s) = rotationChanged s
      \<and> rotAxis (calculateOutputRotation s) = rotAxis s
      \<and> rotAngle (calculateOutputRotation s) = rotAngle s
      \<and> gyroSilentCycles (calculateOutputRotation s) =
          (if gyroId s = '''' then gyroSilentCycles s else gyroSilentCycles s + 1)
      \<and> accSilentCycles (calculateOutputRotation s) =
          (if gyroId s = '''' \<or> accId s = '''' then accSilentCycles s else accSilentCycles s + 1)
      \<and> magSilentCycles (calculateOutputRotation s) =
          (if gyroId s = '''' \<or> magId s = '''' then magSilentCycles s else magSilentCycles s + 1)"
    if "0 < startupTime s"
    unfolding cor_startup_pos [OF that] by simp
  have emit: "rotationChanged (calculateOutputRotation s) = rotationChanged s + 1"
    if "startupTime s \<le> 0 \<and> gyroId s \<noteq> ''''"
    using that by (simp add: cor_rotationChanged)
  have g_quiet: "rotationChanged (gyroReadingChanged predict (timestamp, x, y, z) s)
        = rotationChanged s
      \<and> rotAxis (gyroReadingChanged predict (timestamp, x, y, z) s) = rotAxis s
      \<and> rotAngle (gyroReadingChanged predict (timestamp, x, y, z) s) = rotAngle s"
    if "0 < startupTime (gyroReadingChanged predict (timestamp, x, y, z) s)"
    using that gyro_output_startup [OF that] gyro_rotationChanged [of predict timestamp x y z s]
    by simp
  have a_quiet: "rotationChanged (accReadingChanged correct (timestamp, x, y, z) s)
        = rotationChanged s
      \<and> rotAxis (accReadingChanged correct (timestamp, x, y, z) s) = rotAxis s
      \<and> rotAngle (accReadingChanged correct (timestamp, x, y, z) s) = rotAngle s"
    if "0 < startupTime s"
    using that acc_output_startup [OF that] acc_rotationChanged [of correct timestamp x y z s]
    by simp
  have g_emit: "rotationChanged (gyroReadingChanged predict (timestamp, x, y, z) s)
        = rotationChanged s + 1"
    if "fresh (lastGyroTimestamp s) timestamp \<and> gyroId s \<noteq> ''''
        \<and> startupTime (gyroReadingChanged predict (timestamp, x, y, z) s) \<le> 0"
    using that gyro_rotationChanged [of predict timestamp x y z s] by simp
  have a_emit: "rotationChanged (accReadingChanged correct (timestamp, x, y, z) s)
        = rotationChanged s + 1"
    if "fresh (lastAccTimestamp s) timestamp \<and> gyroId s \<noteq> '''' \<and> startupTime s \<le> 0"
    using that acc_rotationChanged [of correct timestamp x y z s] by simp
  show ?thesis
    using pub emit g_quiet a_quiet g_emit a_emit by blast
qed

theorem startup_suppresses_output_witness:
  "0 < startupTime first_samples_seen
   \<and> rotationChanged (calculateOutputRotation first_samples_seen) = 0
   \<and> gyroSilentCycles (calculateOutputRotation first_samples_seen) = 1
   \<and> accSilentCycles (calculateOutputRotation first_samples_seen) = 1
   \<and> magSilentCycles (calculateOutputRotation first_samples_seen) = 1
   \<and> rotationChanged (accReadingChanged ekf_correct (5, 0, 0, 9.81) first_samples_seen) = 0
   \<and> fresh (lastGyroTimestamp first_samples_seen) 2000001
   \<and> gyroId first_samples_seen \<noteq> ''''
   \<and> startupTime (gyroReadingChanged ekf_predict (2000001, 0, 0, 0) first_samples_seen) \<le> 0
   \<and> rotationChanged (gyroReadingChanged ekf_predict (2000001, 0, 0, 0) first_samples_seen) = 1
   \<and> fresh (lastAccTimestamp
        (gyroReadingChanged ekf_predict (2000001, 0, 0, 0) first_samples_seen)) 5
   \<and> rotationChanged (accReadingChanged ekf_correct (5, 0, 0, 9.81)
        (gyroReadingChanged ekf_predict (2000001, 0, 0, 0) first_samples_seen)) = 2
   \<and> rotationChanged (calculateOutputRotation
        (gyroReadingChanged ekf_predict (2000001, 0, 0, 0) first_samples_seen)) = 2"
proof -
  let ?g = "gyroReadingChanged ekf_predict (2000001, 0, 0, 0) first_samples_seen"
  have h1: "0 < startupTime first_samples_seen"
    and h2: "fresh (lastGyroTimestamp first_samples_seen) 2000001"
    and h3: "gyroId first_samples_seen \<noteq> ''''"
    by (simp_all add: first_samples_seen_fields fresh_iff)
  have h4: "startupTime ?g \<le> 0"
    by (simp add: gyro_startupTime first_samples_seen_fields fresh_iff)
  have h5: "fresh (lastAccTimestamp ?g) 5"
    and h6: "gyroId ?g \<noteq> ''''"
    by (simp_all add: gyro_frame first_samples_seen_fields fresh_iff)
  note t1 = startup_suppresses_output
      [of first_samples_seen ekf_predict 2000001 0 0 0 ekf_correct]
  note t2 = startup_suppresses_output
      [of first_samples_seen ekf_predict 5 0 0 "9.81" ekf_correct]
  note t3 = startup_suppresses_output [of ?g ekf_predict 5 0 0 "9.81" ekf_correct]
  from t1 h1 have a: "rotationChanged (calculateOutputRotation first_samples_seen) = 0"
    and b: "gyroSilentCycles (calculateOutputRotation first_samples_seen) = 1"
    and c: "accSilentCycles (calculateOutputRotation first_samples_seen) = 1"
    and d: "magSilentCycles (calculateOutputRotation first_samples_seen) = 1"
    by (simp_all add: first_samples_seen_fields first_samples_seen_eq IMU_init_def)
  from t2 h1 have e: "rotationChanged (accReadingChanged ekf_correct (5, 0, 0, 9.81)
      first_samples_seen) = 0"
    by (simp add: first_samples_seen_fields)
  from t1 h2 h3 h4 have f: "rotationChanged ?g = 1"
    by (simp add: first_samples_seen_fields)
  from t3 h5 h6 h4 f have g: "rotationChanged (accReadingChanged ekf_correct (5, 0, 0, 9.81) ?g) = 2"
    by simp
  from t3 h6 h4 f have h: "rotationChanged (calculateOutputRotation ?g) = 2"
    by simp
  show ?thesis
    using h1 a b c d e h2 h3 h4 f h5 g h by blast
qed

subsection \<open>The stored timestamps\<close>

text \<open>
  Claim C10. Each handler stores the timestamp of every sample delivered to it, whether
  it processes the sample or drops it. Hence the next sample of the stream is tested
  and, for the gyroscope, timed against the sample delivered before it: the gyro time
  step after two deliveries is computed from the two timestamps, and the second
  accelerometer or magnetometer sample is processed exactly when the pair of timestamps
  passes the test.
\<close>

theorem last_timestamp_always_updated:
  "lastGyroTimestamp (gyroReadingChanged predict (t, x, y, z) s) = t
   \<and> lastAccTimestamp (accReadingChanged correct (t, x, y, z) s) = t
   \<and> lastMagTimestamp (magReadingChanged (t, x, y, z) s) = t
   \<and> wDeltaT (gyroReadingChanged predict (t', x', y', z')
        (gyroReadingChanged predict (t, x, y, z) s)) =
       (if t > 0 then real (unat (t' - t)) / 1000000
        else wDeltaT (gyroReadingChanged predict (t, x, y, z) s))
   \<and> a_vec (accReadingChanged correct (t', x', y', z')
        (accReadingChanged correct (t, x, y, z) s)) =
       (if fresh t t' then (x', y', z') else a_vec (accReadingChanged correct (t, x, y, z) s))
   \<and> magDataReady (magReadingChanged (t', x', y', z') (magReadingChanged (t, x, y, z) s)) =
       (fresh t t' \<or> magDataReady (magReadingChanged (t, x, y, z) s))"
proof -
  have m: "lastMagTimestamp (magReadingChanged (t, x, y, z) s) = t"
    by (rule mag_last)
  have m2: "magDataReady (magReadingChanged (t', x', y', z') (magReadingChanged (t, x, y, z) s)) =
       (fresh t t' \<or> magDataReady (magReadingChanged (t, x, y, z) s))"
    by (cases "fresh t t'") (simp_all add: mag_accepted mag_dropped m)
  show ?thesis
    using m m2 by (simp add: gyro_last acc_last gyro_wDeltaT acc_a_vec)
qed

end
